theory Spec2Isabelle
  imports Complex_Main "HOL-Library.Sublist" "HOL-Library.Multiset"
begin

section \<open>Python values\<close>

text \<open>
  A Python \<open>str\<close> is a sequence of Unicode code points: \<open>len\<close>, slicing and the
  substring test \<open>in\<close> all count code points.  It is modelled as a list of code point
  numbers, so that the Chinese keywords of the router keep the length Python gives them.
  ASCII literals are written with \<open>ascii\<close>.
\<close>

type_synonym ustr = "nat list"

definition ascii :: "string \<Rightarrow> ustr" where
  "ascii s = map of_char s"

text \<open>\<open>kw in question\<close> on two strings: \<open>kw\<close> occurs as a contiguous run.\<close>

fun str_in :: "ustr \<Rightarrow> ustr \<Rightarrow> bool" where
  "str_in kw [] = (kw = [])"
| "str_in kw (c # cs) = (prefix kw (c # cs) \<or> str_in kw cs)"

text \<open>Truthiness of an \<open>Optional[str]\<close>: \<open>None\<close> and the empty string are falsy.\<close>

fun truthy :: "ustr option \<Rightarrow> bool" where
  "truthy None = False"
| "truthy (Some s) = (s \<noteq> [])"

text \<open>\<open>xs[:n]\<close> for a Python int \<open>n\<close>: a negative bound counts from the end.\<close>

definition slice_to :: "int \<Rightarrow> 'a list \<Rightarrow> 'a list" where
  "slice_to n xs = (if 0 \<le> n then take (nat n) xs else take (length xs - nat (- n)) xs)"

text \<open>\<open>sep.join(parts)\<close>.\<close>

fun join :: "ustr \<Rightarrow> ustr list \<Rightarrow> ustr" where
  "join sep [] = []"
| "join sep [p] = p"
| "join sep (p # q # ps) = p @ sep @ join sep (q # ps)"

datatype error =
  KeyError | TypeError | AttributeError | IndexError | ValueError | AssertionError
  | RuntimeError | ProviderError

section \<open>Weakness matcher (router/core/weakness\_matcher.py)\<close>

text \<open>
  A weakness record is one object of the \<open>weaknesses\<close> array of the weakness table.
  The seven keys that \<open>match_weaknesses\<close> reads by subscript (lines 79 to 85) are fields
  of the record; \<open>frequency\<close> is a number, the others are strings.  A record lacking one
  of them is not a weakness record of the data model (the subscript would raise KeyError)
  and has no counterpart here; for a present key \<open>weakness.get('frequency', 0)\<close> is
  \<open>weakness['frequency']\<close>.  The trigger lists are read with \<open>.get(..., [])\<close>: an
  absent list is the empty list.  The key \<open>keywords\<close> is the field
  \<open>trigger_keywords\<close>.  Scores are Python floats, modelled as reals.
\<close>

record weakness_info =
  weakness_id :: ustr
  category :: ustr
  subcategory :: ustr
  description :: ustr
  severity :: ustr
  frequency :: real
  prompt_addition :: ustr

record trigger_lists =
  entity_types :: "ustr list"
  trigger_keywords :: "ustr list"
  question_patterns :: "ustr list"

record weakness = weakness_info +
  triggers :: trigger_lists

text \<open>An element of the list \<open>match_weaknesses\<close> returns (lines 78 to 87).\<close>

record weakness_match = weakness_info +
  match_score :: real

text \<open>\<open>sum(1 for kw in kws if kw in question)\<close>.\<close>

definition count_in :: "ustr list \<Rightarrow> ustr \<Rightarrow> nat" where
  "count_in kws question = length (filter (\<lambda>kw. str_in kw question) kws)"

definition entity_part :: "ustr option \<Rightarrow> ustr list \<Rightarrow> real" where
  "entity_part entity_type ets =
     (if truthy entity_type \<and> ets \<noteq> []
      then (if the entity_type \<in> set ets then 0.30 else 0)
      else 0)"

definition keyword_part :: "real \<Rightarrow> ustr list \<Rightarrow> ustr \<Rightarrow> real" where
  "keyword_part weight kws question =
     (if kws \<noteq> []
      then (let matched = count_in kws question
            in if matched > 0
               then weight * min 1 (real matched / real (length kws))
               else 0)
      else 0)"

definition calculate_match_score :: "ustr \<Rightarrow> weakness \<Rightarrow> ustr option \<Rightarrow> real" where
  "calculate_match_score question w entity_type =
     (let t = triggers w in
      0 + entity_part entity_type (entity_types t)
        + keyword_part 0.40 (trigger_keywords t) question
        + keyword_part 0.30 (question_patterns t) question)"

definition make_match :: "weakness \<Rightarrow> real \<Rightarrow> weakness_match" where
  "make_match w score =
     \<lparr> weakness_id = weakness_id w, category = category w, subcategory = subcategory w,
       description = description w, severity = severity w, frequency = frequency w,
       prompt_addition = prompt_addition w, match_score = score \<rparr>"

text \<open>The loop of lines 69 to 87, in table order.\<close>

fun collect_matches :: "ustr \<Rightarrow> ustr option \<Rightarrow> real \<Rightarrow> weakness list \<Rightarrow> weakness_match list" where
  "collect_matches question entity_type min_frequency [] = []"
| "collect_matches question entity_type min_frequency (w # ws) =
     (if frequency w < min_frequency
      then collect_matches question entity_type min_frequency ws
      else (let score = calculate_match_score question w entity_type
            in if score > 0
               then make_match w score # collect_matches question entity_type min_frequency ws
               else collect_matches question entity_type min_frequency ws))"

text \<open>
  \<open>matches.sort(key=lambda x: (x['match_score'], x['frequency']), reverse=True)\<close>:
  tuples compare lexicographically, and Python's sort is stable also with
  \<open>reverse=True\<close> (elements with equal keys keep their order).  An insertion sort
  that puts an element in front of the first one whose key is not greater computes this
  order.
\<close>

definition sort_key_of :: "weakness_match \<Rightarrow> real \<times> real" where
  "sort_key_of m = (match_score m, frequency m)"

definition tuple_less :: "real \<times> real \<Rightarrow> real \<times> real \<Rightarrow> bool" where
  "tuple_less a b = (fst a < fst b \<or> (fst a = fst b \<and> snd a < snd b))"

fun insert_desc :: "weakness_match \<Rightarrow> weakness_match list \<Rightarrow> weakness_match list" where
  "insert_desc x [] = [x]"
| "insert_desc x (y # ys) =
     (if tuple_less (sort_key_of x) (sort_key_of y) then y # insert_desc x ys else x # y # ys)"

definition sort_reverse :: "weakness_match list \<Rightarrow> weakness_match list" where
  "sort_reverse ms = foldr insert_desc ms []"

definition match_weaknesses ::
  "weakness list \<Rightarrow> ustr \<Rightarrow> ustr option \<Rightarrow> int \<Rightarrow> real \<Rightarrow> weakness_match list" where
  "match_weaknesses weaknesses question entity_type top_k min_frequency =
     slice_to top_k (sort_reverse (collect_matches question entity_type min_frequency weaknesses))"

section \<open>Decision engine (router/core/decision\_engine.py)\<close>

text \<open>
  What the engine finds at a path: no file, a file that cannot be read or parsed
  (\<open>open\<close> or \<open>json.load\<close> raises), or a parsed JSON document.
\<close>

datatype 'a disk_file = Missing | Malformed | Parsed 'a

text \<open>
  The entity-name document is read by \<open>_build_entity_set\<close> (lines 119 to 124): it calls
  \<open>.items()\<close> on the document and \<open>all_entities.update(names)\<close> on every value.
  \<open>EntityObject\<close> is a JSON object, as the list of its members; \<open>EntityOther\<close> is any
  other JSON value (it has no \<open>.items()\<close>).  The value of a member is
  \<^item> \<open>Names\<close>: an array of strings, the shape of the data model;
  \<^item> \<open>NamesText\<close>: a string, which \<open>update\<close> iterates character by character;
  \<^item> \<open>NamesKeys\<close>: an object, which \<open>update\<close> iterates by its keys;
  \<^item> \<open>NotIterable\<close>: \<open>null\<close>, a number or a boolean, on which \<open>update\<close> raises TypeError;
  \<^item> \<open>HoldsUnhashable\<close>: an array holding an array or an object, on which \<open>update\<close>
    raises TypeError.

  An array of hashable values that are not all strings (numbers, booleans, \<open>null\<close>)
  enters the set as it is and makes \<open>entity_name in question\<close> raise later, in
  \<open>should_use_rag\<close>; the entity set of the engine holds strings only, and such a
  document has no counterpart here.
\<close>

datatype names_json =
  Names "ustr list" | NamesText ustr | NamesKeys "ustr list" | NotIterable | HoldsUnhashable

datatype entity_json = EntityObject "(ustr \<times> names_json) list" | EntityOther

text \<open>
  The weakness document is read by \<open>_load_weaknesses\<close> with
  \<open>data.get('weaknesses', [])\<close> and the result goes to \<open>len\<close> in \<open>__init__\<close> (line
  32).  \<open>WeaknessObject\<close> is a JSON object with the value of its key \<open>weaknesses\<close>
  (\<open>None\<close> when the key is absent); \<open>WeaknessOther\<close> is any other JSON value (it has
  no \<open>.get\<close>).  The value of the key is
  \<^item> \<open>WeaknessList\<close>: an array of weakness records, the shape of the data model;
  \<^item> \<open>Unsized\<close>: \<open>null\<close>, a number or a boolean, on which \<open>len\<close> raises TypeError.

  A string, an object, or an array holding something that is not a weakness record has
  a length, so that construction finishes with it, and makes \<open>match_weaknesses\<close> raise
  later; the table of the matcher holds weakness records only, and such a document has
  no counterpart here.
\<close>

datatype weaknesses_json = WeaknessList "weakness list" | Unsized

datatype weakness_json = WeaknessObject "weaknesses_json option" | WeaknessOther

record file_system =
  entity_file :: "entity_json disk_file"
  entity_file_mtime :: real
  weakness_file :: "weakness_json disk_file"
  weakness_file_mtime :: real

record router_settings =
  ENABLE_HOT_RELOAD :: bool
  WEAKNESS_TOP_K :: int
  WEAKNESS_MIN_FREQUENCY :: real

text \<open>
  A Python \<open>set\<close> of strings is kept as the list of its elements in the order the
  set iterates them; that order is not fixed by the language, and no theorem below
  depends on it.  \<open>weakness_matcher\<close> holds the \<open>weaknesses\<close> list of the
  WeaknessMatcher instance.
\<close>

record engine =
  entities_by_category :: entity_json
  all_entities_set :: "ustr list"
  weakness_matcher :: "weakness list"
  entity_mtime :: real
  weakness_mtime :: real
  last_reload_check :: real
  category_keywords :: "(ustr \<times> ustr list) list"
  ood_keywords :: "ustr list"

record decision =
  use_rag :: bool
  rag_reason :: ustr
  rag_confidence :: real
  weakness_patterns :: "weakness_match list"
  has_weaknesses :: bool
  routing_tier :: ustr
  reload_checked_at :: real

text \<open>
  \<open>_load_weaknesses\<close> (lines 34 to 46): no file gives \<open>[]\<close>; an exception of
  \<open>open\<close>, \<open>json.load\<close> or \<open>data.get\<close> is caught and gives \<open>[]\<close>; otherwise the
  value of the key is returned as it is, \<open>[]\<close> standing in for an absent key.
\<close>

definition load_weaknesses :: "weakness_json disk_file \<Rightarrow> weaknesses_json" where
  "load_weaknesses f =
     (case f of
        Missing \<Rightarrow> WeaknessList []
      | Malformed \<Rightarrow> WeaknessList []
      | Parsed WeaknessOther \<Rightarrow> WeaknessList []
      | Parsed (WeaknessObject None) \<Rightarrow> WeaknessList []
      | Parsed (WeaknessObject (Some v)) \<Rightarrow> v)"

text \<open>
  \<open>WeaknessMatcher.__init__\<close> (lines 30 to 32): the instance is its table.  The
  \<open>len(self.weaknesses)\<close> of the log line is outside any \<open>try\<close>: its TypeError
  leaves the constructor.
\<close>

definition WeaknessMatcher :: "weakness_json disk_file \<Rightarrow> error + weakness list" where
  "WeaknessMatcher f =
     (case load_weaknesses f of
        WeaknessList ws \<Rightarrow> Inr ws
      | Unsized \<Rightarrow> Inl TypeError)"

definition empty_entities :: entity_json where
  "empty_entities =
     EntityObject [(ascii ''diseases'', Names []), (ascii ''examinations'', Names []),
                   (ascii ''surgeries'', Names []), (ascii ''vaccines'', Names [])]"

definition load_entities :: "entity_json disk_file \<Rightarrow> entity_json" where
  "load_entities f =
     (case f of
        Missing \<Rightarrow> empty_entities
      | Malformed \<Rightarrow> empty_entities
      | Parsed j \<Rightarrow> j)"

text \<open>
  \<open>all_entities.update(names)\<close>: the elements that iterating \<open>names\<close> yields, or
  the TypeError it raises.
\<close>

definition iterate_names :: "names_json \<Rightarrow> error + ustr list" where
  "iterate_names names =
     (case names of
        Names ns \<Rightarrow> Inr ns
      | NamesText text \<Rightarrow> Inr (map (\<lambda>c. [c]) text)
      | NamesKeys ks \<Rightarrow> Inr ks
      | NotIterable \<Rightarrow> Inl TypeError
      | HoldsUnhashable \<Rightarrow> Inl TypeError)"

text \<open>The loop of lines 122 and 123, with \<open>all_entities\<close> as accumulator.\<close>

fun update_all :: "(ustr \<times> names_json) list \<Rightarrow> ustr list \<Rightarrow> error + ustr list" where
  "update_all [] all_entities = Inr all_entities"
| "update_all ((category', names) # rest) all_entities =
     (case iterate_names names of
        Inl e \<Rightarrow> Inl e
      | Inr ns \<Rightarrow> update_all rest (all_entities @ ns))"

definition build_entity_set :: "entity_json \<Rightarrow> error + ustr list" where
  "build_entity_set j =
     (case j of
        EntityOther \<Rightarrow> Inl AttributeError
      | EntityObject d \<Rightarrow>
          (case update_all d [] of
             Inl e \<Rightarrow> Inl e
           | Inr all_entities \<Rightarrow> Inr (remdups all_entities)))"

definition get_mtime :: "'a disk_file \<Rightarrow> real \<Rightarrow> real" where
  "get_mtime f mtime = (if f \<noteq> Missing then mtime else 0)"

definition CATEGORY_KEYWORDS :: "(ustr \<times> ustr list) list" where
  "CATEGORY_KEYWORDS =
     [(ascii ''diseases'',
        [[31958, 23615, 30149], [39640, 34880, 21387], [30333, 34880, 30149],
         [32954, 32467, 33410], [21322, 26376, 26495], [28216, 36208, 33086],
         [27801, 38376, 27663, 33740], [21345, 27874, 35199, 32905, 30244],
         [23478, 26063, 24615, 39640, 32966, 22266, 37255, 34880, 30151],
         [31867, 40763, 30141], [30142, 30149], [30151, 29366], [27835, 30103],
         [30149, 22240]]),
      (ascii ''examinations'',
        [[26816, 26597], [31579, 26597], ascii ''CT'', ascii ''MRI'', [88, 20809],
         [36229, 22768], [66, 36229], [34880, 24120, 35268], [23615, 26816],
         [24515, 30005, 22270], [32963, 38236], [32928, 38236], [27963, 26816]]),
      (ascii ''surgeries'',
        [[25163, 26415], [26415, 21518], [25805, 20316], [20999, 38500], [32622, 25442],
         [31227, 26893], [24494, 21019], [24320, 25918], [33145, 33108, 38236],
         [31359, 21050]]),
      (ascii ''vaccines'',
        [[30123, 33495], [25509, 31181], [27880, 23556], [20813, 30123],
         [39044, 38450, 38024], [20057, 32925], [27969, 24863], [32954, 28814],
         [29378, 29356], ascii ''HPV''])]"

definition OOD_KEYWORDS :: "ustr list" where
  "OOD_KEYWORDS =
     [[25671, 26179, 32508, 21512, 24449], [23156, 20799, 25671, 26179],
      ascii ''Shaken Baby'',
      [24565, 29664, 33740, 24615, 40863, 22836, 28814],
      [24565, 29664, 33740, 40863, 22836],
      [28023, 32501, 29366, 34880, 31649, 30244], [34880, 31649, 30244],
      [38452, 21767, 31896, 36830], [22806, 38452, 31896, 36830],
      [20808, 22825, 24615, 24515, 33039, 30149, 31579, 26597],
      [21333, 32431, 24615, 30002, 29366, 33146, 32959],
      [24515, 33039, 24615, 29469, 27515, 39044, 38450],
      [21464, 24615, 25163, 26415], [24615, 21035, 32943, 23450, 25163, 26415],
      [24863, 26579, 24615, 30142, 30149, 36890, 29992, 30151, 29366]]"

text \<open>
  \<open>DecisionEngine.__init__\<close>.  \<open>now\<close> is what \<open>datetime.now()\<close> returns.
  \<open>_build_entity_set\<close> and the construction of the WeaknessMatcher, in this order, are
  outside any \<open>try\<close>: an exception of either leaves the constructor.
\<close>

definition DecisionEngine :: "file_system \<Rightarrow> real \<Rightarrow> error + engine" where
  "DecisionEngine fs now =
     (let ebc = load_entities (entity_file fs) in
      case build_entity_set ebc of
        Inl e \<Rightarrow> Inl e
      | Inr names \<Rightarrow>
          (case WeaknessMatcher (weakness_file fs) of
             Inl e \<Rightarrow> Inl e
           | Inr matcher \<Rightarrow>
               Inr \<lparr> entities_by_category = ebc,
                     all_entities_set = names,
                     weakness_matcher = matcher,
                     entity_mtime = get_mtime (entity_file fs) (entity_file_mtime fs),
                     weakness_mtime = get_mtime (weakness_file fs) (weakness_file_mtime fs),
                     last_reload_check = now,
                     category_keywords = CATEGORY_KEYWORDS,
                     ood_keywords = OOD_KEYWORDS \<rparr>))"

definition reload_entities :: "file_system \<Rightarrow> engine \<Rightarrow> error + bool \<times> engine" where
  "reload_entities fs e =
     (let current_entity_mtime = get_mtime (entity_file fs) (entity_file_mtime fs) in
      if current_entity_mtime > entity_mtime e
      then (let ebc = load_entities (entity_file fs) in
            case build_entity_set ebc of
              Inl err \<Rightarrow> Inl err
            | Inr names \<Rightarrow>
                Inr (True, e\<lparr> entities_by_category := ebc, all_entities_set := names,
                               entity_mtime := current_entity_mtime \<rparr>))
      else Inr (False, e))"

definition reload_weaknesses :: "file_system \<Rightarrow> engine \<Rightarrow> error + bool \<times> engine" where
  "reload_weaknesses fs e =
     (let current_weakness_mtime = get_mtime (weakness_file fs) (weakness_file_mtime fs) in
      if current_weakness_mtime > weakness_mtime e
      then (case WeaknessMatcher (weakness_file fs) of
              Inl err \<Rightarrow> Inl err
            | Inr matcher \<Rightarrow>
                Inr (True, e\<lparr> weakness_matcher := matcher,
                               weakness_mtime := current_weakness_mtime \<rparr>))
      else Inr (False, e))"

definition check_for_updates :: "file_system \<Rightarrow> real \<Rightarrow> engine \<Rightarrow> error + bool \<times> engine" where
  "check_for_updates fs now e =
     (case reload_entities fs e of
        Inl err \<Rightarrow> Inl err
      | Inr (r1, e1) \<Rightarrow>
          (case reload_weaknesses fs e1 of
             Inl err \<Rightarrow> Inl err
           | Inr (r2, e2) \<Rightarrow> Inr (r1 \<or> r2, e2\<lparr> last_reload_check := now \<rparr>)))"

definition apostrophe :: ustr where
  "apostrophe = [39]"

definition generic_prefixes :: "ustr list" where
  "generic_prefixes = [[26816, 26597], [25163, 26415], [30123, 33495]]"

definition category_hit :: "ustr \<Rightarrow> ustr \<times> ustr list \<Rightarrow> bool" where
  "category_hit question ck = list_ex (\<lambda>kw. str_in kw question) (snd ck)"

definition partial_hit :: "ustr \<Rightarrow> ustr \<Rightarrow> bool" where
  "partial_hit question entity_name =
     (length entity_name \<ge> 3 \<and>
      (let pre = take (min 3 (length entity_name)) entity_name
       in length pre \<ge> 2 \<and> str_in pre question \<and> pre \<notin> set generic_prefixes))"

definition should_use_rag :: "engine \<Rightarrow> ustr \<Rightarrow> real \<Rightarrow> bool \<times> ustr \<times> real" where
  "should_use_rag e question min_confidence =
     (case find (\<lambda>entity_name. str_in entity_name question) (all_entities_set e) of
        Some entity_name \<Rightarrow>
          (True, ascii ''Exact match: '' @ apostrophe @ entity_name @ apostrophe, 0.95)
      | None \<Rightarrow>
     (case find (\<lambda>ood_keyword. str_in ood_keyword question) (ood_keywords e) of
        Some ood_keyword \<Rightarrow>
          (False, ascii ''Known OOD topic: '' @ apostrophe @ ood_keyword @ apostrophe, 0.90)
      | None \<Rightarrow>
     (let matched_categories = map fst (filter (category_hit question) (category_keywords e)) in
      if length matched_categories \<ge> 2
      then (True, ascii ''Multiple category matches: '' @ join (ascii '', '') matched_categories, 0.75)
      else if length matched_categories = 1
      then (True, ascii ''Category match: '' @ hd matched_categories, 0.65)
      else
     (case find (partial_hit question) (all_entities_set e) of
        Some entity_name \<Rightarrow>
          (True, ascii ''Partial match: '' @ apostrophe @ entity_name @ apostrophe, 0.60)
      | None \<Rightarrow>
          (True, ascii ''Uncertain - defer to threshold filter'', 0.50)))))"

text \<open>
  \<open>get_routing_decision\<close>: \<open>route\<close> is the body after the hot-reload check (lines 240
  to 279).  The check may replace parts of the engine, so the engine after the call is
  returned with the decision.  An exception of the reload leaves the method (\<open>Inl\<close>).
\<close>

definition route :: "router_settings \<Rightarrow> engine \<Rightarrow> ustr \<Rightarrow> ustr option \<Rightarrow> real \<Rightarrow> decision" where
  "route settings e question entity_type min_confidence =
     (let wps = match_weaknesses (weakness_matcher e) question entity_type
                  (WEAKNESS_TOP_K settings) (WEAKNESS_MIN_FREQUENCY settings);
          hasw = (length wps > 0);
          (u, reason, conf) =
             (if \<not> hasw then should_use_rag e question min_confidence
              else (True,
                    ascii ''Supplemental context for weakness: '' @ weakness_id (hd wps),
                    0.85))
      in \<lparr> use_rag = u, rag_reason = reason, rag_confidence = conf,
           weakness_patterns = wps, has_weaknesses = hasw,
           routing_tier = (if hasw then ascii ''weakness''
                           else if u then ascii ''rag'' else ascii ''baseline''),
           reload_checked_at = last_reload_check e \<rparr>)"

definition get_routing_decision ::
  "router_settings \<Rightarrow> file_system \<Rightarrow> real \<Rightarrow> engine \<Rightarrow> ustr \<Rightarrow> ustr option \<Rightarrow> real \<Rightarrow> bool
     \<Rightarrow> error + decision \<times> engine" where
  "get_routing_decision settings fs now e question entity_type min_confidence auto_reload =
     (if auto_reload \<and> ENABLE_HOT_RELOAD settings
      then (case check_for_updates fs now e of
              Inl err \<Rightarrow> Inl err
            | Inr (reloaded, e') \<Rightarrow>
                Inr (route settings e' question entity_type min_confidence, e'))
      else Inr (route settings e question entity_type min_confidence, e))"

section \<open>Python objects, the embedder and the FAISS index\<close>

text \<open>
  Values found in a pattern or metadata dict.  Every Python \<open>dict\<close> here has string
  keys written in the source as ASCII literals, so a dict is a map from such keys to
  values.
\<close>

datatype pyval = PNone | PBool bool | PInt int | PFloat real | PStr ustr | PList "pyval list"

type_synonym pydict = "string \<rightharpoonup> pyval"

text \<open>\<open>d[key]\<close> and \<open>d.get(key, default)\<close>.\<close>

definition subscript :: "pydict \<Rightarrow> string \<Rightarrow> error + pyval" where
  "subscript d key = (case d key of None \<Rightarrow> Inl KeyError | Some v \<Rightarrow> Inr v)"

definition dict_get :: "pydict \<Rightarrow> string \<Rightarrow> pyval \<Rightarrow> pyval" where
  "dict_get d key dflt = (case d key of None \<Rightarrow> dflt | Some v \<Rightarrow> v)"

text \<open>\<open>xs[i]\<close> for a Python int \<open>i\<close>: \<open>-1\<close> is the last element.\<close>

definition py_index :: "'a list \<Rightarrow> int \<Rightarrow> error + 'a" where
  "py_index xs i =
     (if 0 \<le> i \<and> i < int (length xs) then Inr (xs ! nat i)
      else if i < 0 \<and> - int (length xs) \<le> i then Inr (xs ! nat (int (length xs) + i))
      else Inl IndexError)"

record settings =
  USE_EMBEDDING_CACHE :: bool
  EMBEDDING_DIMENSION :: int
  RAG_RELEVANCE_THRESHOLD :: real

type_synonym vec = "real list"

text \<open>
  \<open>provider\<close> is \<open>api_client.get_embedding\<close>, the external embedding service: it
  returns a vector or raises.  The cache of the embedder is keyed by the MD5 digest of
  the truncated text; the model keys it by that text (distinct texts, distinct keys).
  Persisting the cache (\<open>_save_cache\<close>) catches its own exceptions and changes nothing
  in memory.
\<close>

type_synonym provider = "ustr \<Rightarrow> error + vec"

type_synonym embedding_cache = "ustr \<rightharpoonup> vec"

definition truncate_text :: "ustr \<Rightarrow> ustr" where
  "truncate_text text = (if length text \<le> 5500 then text else take 5500 text @ ascii ''...'')"

definition embed ::
  "settings \<Rightarrow> provider \<Rightarrow> ustr \<Rightarrow> embedding_cache \<Rightarrow> (error + vec) \<times> embedding_cache" where
  "embed st api text0 cache =
     (let text = truncate_text text0 in
      if USE_EMBEDDING_CACHE st \<and> cache text \<noteq> None then (Inr (the (cache text)), cache)
      else (case api text of
              Inl e \<Rightarrow> (Inl e, cache)
            | Inr embedding \<Rightarrow>
                (Inr embedding,
                 if USE_EMBEDDING_CACHE st then cache(text \<mapsto> embedding) else cache)))"

text \<open>
  The argument of \<open>embed\<close> read from a dict may be any value: \<open>len\<close> or
  \<open>.encode\<close> raise on everything but a string.
\<close>

definition embed_value ::
  "settings \<Rightarrow> provider \<Rightarrow> pyval \<Rightarrow> embedding_cache \<Rightarrow> (error + vec) \<times> embedding_cache" where
  "embed_value st api v cache =
     (case v of PStr text \<Rightarrow> embed st api text cache | _ \<Rightarrow> (Inl TypeError, cache))"

text \<open>
  One round of the loop of \<open>embed_batch\<close> (lines 121 to 147).  A failure of the
  provider is caught and a zero vector of \<open>EMBEDDING_DIMENSION\<close> entries stands in.
  For a list the \<open>.encode\<close> call raises inside the \<open>try\<close> and the handler's
  \<open>text[:200]\<close> succeeds, so a zero vector stands in as well; for any other
  non-string \<open>text[:200]\<close> raises inside the handler and the exception leaves
  \<open>embed_batch\<close>.
\<close>

definition embed_item ::
  "settings \<Rightarrow> provider \<Rightarrow> pyval \<Rightarrow> embedding_cache \<Rightarrow> (error + vec) \<times> embedding_cache" where
  "embed_item st api v cache =
     (case v of
        PStr text0 \<Rightarrow>
          (let text = truncate_text text0 in
           if USE_EMBEDDING_CACHE st \<and> cache text \<noteq> None then (Inr (the (cache text)), cache)
           else (case api text of
                   Inr embedding \<Rightarrow>
                     (Inr embedding,
                      if USE_EMBEDDING_CACHE st then cache(text \<mapsto> embedding) else cache)
                 | Inl e \<Rightarrow> (Inr (replicate (nat (EMBEDDING_DIMENSION st)) 0), cache)))
      | PList _ \<Rightarrow> (Inr (replicate (nat (EMBEDDING_DIMENSION st)) 0), cache)
      | _ \<Rightarrow> (Inl TypeError, cache))"

fun embed_batch ::
  "settings \<Rightarrow> provider \<Rightarrow> pyval list \<Rightarrow> embedding_cache
     \<Rightarrow> (error + vec list) \<times> embedding_cache" where
  "embed_batch st api [] cache = (Inr [], cache)"
| "embed_batch st api (t # ts) cache =
     (case embed_item st api t cache of
        (Inl e, cache1) \<Rightarrow> (Inl e, cache1)
      | (Inr v, cache1) \<Rightarrow>
          (case embed_batch st api ts cache1 of
             (Inl e, cache2) \<Rightarrow> (Inl e, cache2)
           | (Inr vs, cache2) \<Rightarrow> (Inr (v # vs), cache2)))"

text \<open>
  \<open>faiss.IndexFlatL2\<close> is a library class, not code of the repository.  Its model
  follows the library's documented behaviour: the index keeps the added rows in order;
  \<open>add\<close> asserts that the rows have the index's dimension; \<open>search\<close> asserts the
  query's dimension and \<open>k > 0\<close>, and returns exactly \<open>k\<close> (label, distance) pairs by
  ascending squared Euclidean distance, equal distances by ascending row number.  The
  result heap starts filled with label \<open>-1\<close> and distance \<open>FLT_MAX\<close> and a row
  replaces an entry only with a smaller distance, so when fewer than \<open>k\<close> rows qualify
  the tail of the result is \<open>(-1, FLT_MAX)\<close>.  \<open>float32\<close> rounding is not modelled:
  distances are reals.
\<close>

record faiss_index =
  dim :: int
  vectors :: "vec list"

definition FLT_MAX :: real where
  "FLT_MAX = 340282346638528859811704183484516925440"

definition IndexFlatL2 :: "int \<Rightarrow> faiss_index" where
  "IndexFlatL2 dimension = \<lparr> dim = dimension, vectors = [] \<rparr>"

definition ntotal :: "faiss_index \<Rightarrow> nat" where
  "ntotal ix = length (vectors ix)"

definition l2sqr :: "vec \<Rightarrow> vec \<Rightarrow> real" where
  "l2sqr x y = sum_list (map (\<lambda>(a, b). (a - b)\<^sup>2) (zip x y))"

text \<open>\<open>np.array(rows, dtype=float32)\<close> of a list of float lists: ragged rows raise.\<close>

definition np_array :: "vec list \<Rightarrow> error + vec list" where
  "np_array rows =
     (case rows of
        [] \<Rightarrow> Inr []
      | r # rs \<Rightarrow> if list_all (\<lambda>r'. length r' = length r) rs then Inr rows else Inl ValueError)"

definition faiss_add :: "faiss_index \<Rightarrow> vec list \<Rightarrow> error + faiss_index" where
  "faiss_add ix x =
     (if x = [] then Inl ValueError
      else if list_all (\<lambda>r. int (length r) = dim ix) x
      then Inr (ix\<lparr> vectors := vectors ix @ x \<rparr>)
      else Inl AssertionError)"

definition faiss_search :: "faiss_index \<Rightarrow> vec \<Rightarrow> int \<Rightarrow> error + (int \<times> real) list" where
  "faiss_search ix q k =
     (if int (length q) \<noteq> dim ix \<or> k \<le> 0 then Inl AssertionError
      else (let scored = zip (map int [0..<length (vectors ix)]) (map (l2sqr q) (vectors ix));
                found = take (nat k) (sort_key snd (filter (\<lambda>c. snd c < FLT_MAX) scored))
            in Inr (found @ replicate (nat k - length found) (- 1, FLT_MAX))))"

section \<open>Pattern storage (optimizer/core/pattern\_storage.py)\<close>

text \<open>
  The stored patterns are dict objects that the storage shares with its callers and
  copies in \<open>retrieve_relevant\<close>, so objects live in an explicit store: \<open>heap\<close> is the
  list of all dict objects created so far, an object's address is its position, and a
  new object is appended.  \<open>patterns\<close> is the list \<open>self.patterns\<close> of references,
  \<open>index\<close> is \<open>self.index\<close> (\<open>None\<close> until the first add) and \<open>cache\<close> is the cache
  of \<open>self.embedder\<close>.
\<close>

record storage =
  cache :: embedding_cache
  heap :: "pydict list"
  patterns :: "nat list"
  index :: "faiss_index option"

definition row_count :: "storage \<Rightarrow> nat" where
  "row_count s = (case index s of None \<Rightarrow> 0 | Some ix \<Rightarrow> ntotal ix)"

text \<open>
  \<open>PatternStorage.__init__\<close> with \<open>_load\<close> (lines 38 to 55): when both files exist
  and both load, the patterns of the file become the stored objects and the index of
  the file becomes the index, without any comparison of the two; when an exception is
  raised while loading, or a file is absent, the storage starts empty.  \<open>cache0\<close> is
  the cache the embedder loaded.
\<close>

definition PatternStorage ::
  "pydict list disk_file \<Rightarrow> faiss_index disk_file \<Rightarrow> embedding_cache \<Rightarrow> storage" where
  "PatternStorage patterns_file index_file cache0 =
     (if patterns_file \<noteq> Missing \<and> index_file \<noteq> Missing
      then (case (patterns_file, index_file) of
              (Parsed loaded, Parsed ix) \<Rightarrow>
                \<lparr> cache = cache0, heap = loaded, patterns = [0..<length loaded],
                  index = Some ix \<rparr>
            | _ \<Rightarrow> \<lparr> cache = cache0, heap = [], patterns = [], index = None \<rparr>)
      else \<lparr> cache = cache0, heap = [], patterns = [], index = None \<rparr>)"

text \<open>
  \<open>_save\<close> reads \<open>self.patterns\<close> and \<open>self.index\<close>, writes the two files and
  catches every exception (lines 59 to 70).  The files are not part of the model;
  whether the write fails or not, the state in memory is what it was.
\<close>

definition save :: "bool \<Rightarrow> storage \<Rightarrow> storage" where
  "save write_fails s = s"

text \<open>\<open>pattern['id'] = n\<close> on the object at address \<open>pattern\<close>.\<close>

definition set_id :: "nat \<Rightarrow> nat \<Rightarrow> storage \<Rightarrow> storage" where
  "set_id pattern n s =
     s\<lparr> heap := (heap s)[pattern := (heap s ! pattern)(''id'' \<mapsto> PInt (int n))] \<rparr>"

definition add_pattern :: "settings \<Rightarrow> provider \<Rightarrow> bool \<Rightarrow> nat \<Rightarrow> storage \<Rightarrow> storage" where
  "add_pattern st api write_fails pattern s =
     (case subscript (heap s ! pattern) ''description'' of
        Inl e \<Rightarrow> s
      | Inr text \<Rightarrow>
          (case embed_value st api text (cache s) of
             (Inl e, cache1) \<Rightarrow> s\<lparr> cache := cache1 \<rparr>
           | (Inr embedding, cache1) \<Rightarrow>
               (let ix = (case index s of
                            None \<Rightarrow> IndexFlatL2 (int (length embedding))
                          | Some ix0 \<Rightarrow> ix0);
                    s1 = s\<lparr> cache := cache1, index := Some ix \<rparr>
                in case faiss_add ix [embedding] of
                     Inl e \<Rightarrow> s1
                   | Inr ix' \<Rightarrow>
                       (let s2 = s1\<lparr> index := Some ix' \<rparr>;
                            pattern_id = length (patterns s2);
                            s3 = set_id pattern pattern_id s2;
                            s4 = s3\<lparr> patterns := patterns s3 @ [pattern] \<rparr>
                        in save write_fails s4))))"

text \<open>\<open>[p['description'] for p in patterns]\<close>.\<close>

fun descriptions_of :: "pydict list \<Rightarrow> nat list \<Rightarrow> error + pyval list" where
  "descriptions_of h [] = Inr []"
| "descriptions_of h (p # ps) =
     (case subscript (h ! p) ''description'' of
        Inl e \<Rightarrow> Inl e
      | Inr text \<Rightarrow>
          (case descriptions_of h ps of Inl e \<Rightarrow> Inl e | Inr texts \<Rightarrow> Inr (text # texts)))"

text \<open>
  The loop of lines 134 to 136: \<open>len(self.patterns)\<close> is read in every round, after
  the appends of the rounds before.
\<close>

fun append_patterns :: "nat \<Rightarrow> nat list \<Rightarrow> storage \<Rightarrow> storage" where
  "append_patterns i [] s = s"
| "append_patterns i (pattern # rest) s =
     (let s1 = set_id pattern (length (patterns s) + i) s
      in append_patterns (i + 1) rest (s1\<lparr> patterns := patterns s1 @ [pattern] \<rparr>))"

definition add_patterns_batch ::
  "settings \<Rightarrow> provider \<Rightarrow> bool \<Rightarrow> nat list \<Rightarrow> storage \<Rightarrow> storage" where
  "add_patterns_batch st api write_fails new_patterns s =
     (if new_patterns = [] then s
      else
       (case descriptions_of (heap s) new_patterns of
          Inl e \<Rightarrow> s
        | Inr descriptions \<Rightarrow>
            (case embed_batch st api descriptions (cache s) of
               (Inl e, cache1) \<Rightarrow> s\<lparr> cache := cache1 \<rparr>
             | (Inr embeddings, cache1) \<Rightarrow>
                 (case (case index s of
                          Some ix0 \<Rightarrow> Inr ix0
                        | None \<Rightarrow>
                            (case py_index embeddings 0 of
                               Inl e \<Rightarrow> Inl e
                             | Inr first \<Rightarrow> Inr (IndexFlatL2 (int (length first))))) of
                    Inl e \<Rightarrow> s\<lparr> cache := cache1 \<rparr>
                  | Inr ix \<Rightarrow>
                      (let s1 = s\<lparr> cache := cache1, index := Some ix \<rparr>
                       in case np_array embeddings of
                            Inl e \<Rightarrow> s1
                          | Inr embeddings_np \<Rightarrow>
                              (case faiss_add ix embeddings_np of
                                 Inl e \<Rightarrow> s1
                               | Inr ix' \<Rightarrow>
                                   save write_fails
                                     (append_patterns 0 new_patterns
                                        (s1\<lparr> index := Some ix' \<rparr>))))))))"

text \<open>\<open>severity_order.get(x, 1)\<close>: a list is unhashable and makes \<open>dict.get\<close> raise.\<close>

definition severity_level :: "ustr \<Rightarrow> nat" where
  "severity_level sv =
     (if sv = ascii ''critical'' then 3
      else if sv = ascii ''major'' then 2
      else if sv = ascii ''minor'' then 1
      else 1)"

definition severity_order_get :: "pyval \<Rightarrow> error + nat" where
  "severity_order_get v =
     (case v of
        PStr sv \<Rightarrow> Inr (severity_level sv)
      | PList _ \<Rightarrow> Inl TypeError
      | _ \<Rightarrow> Inr 1)"

text \<open>
  Lines 191 and 192: \<open>self.patterns[idx].copy()\<close> creates a new dict object with the
  items of the stored one, and the score is written into the new object.  The result
  is the address of the new object.
\<close>

definition copy_with_score :: "nat \<Rightarrow> real \<Rightarrow> storage \<Rightarrow> nat \<times> storage" where
  "copy_with_score stored relevance_score s =
     (let pattern = length (heap s);
          s0 = s\<lparr> heap := heap s @ [heap s ! stored] \<rparr>;
          s1 = s0\<lparr> heap := (heap s0)[pattern :=
                     (heap s0 ! pattern)(''relevance_score'' \<mapsto> PFloat relevance_score)] \<rparr>
      in (pattern, s1))"

text \<open>
  The three filters of lines 194 to 205 on the copy \<open>pattern\<close> whose score is
  \<open>relevance_score\<close>: \<open>Inr False\<close> is \<open>continue\<close>, \<open>Inr True\<close> reaches
  \<open>results.append\<close>.
\<close>

definition passes_filters :: "real \<Rightarrow> ustr option \<Rightarrow> nat \<Rightarrow> pydict \<Rightarrow> real \<Rightarrow> error + bool" where
  "passes_filters threshold category' min_severity_level pattern relevance_score =
     (if threshold > 0 \<and> relevance_score < threshold then Inr False
      else
       (let pattern_category = dict_get pattern ''category'' (PStr (ascii ''general''))
        in if truthy category' \<and> pattern_category \<noteq> PStr (the category')
              \<and> pattern_category \<noteq> PStr (ascii ''general'')
           then Inr False
           else
            (case severity_order_get (dict_get pattern ''severity'' (PStr (ascii ''minor''))) of
               Inl e \<Rightarrow> Inl e
             | Inr level \<Rightarrow>
                 if level < min_severity_level then Inr False else Inr True)))"

text \<open>
  The loop of lines 189 to 210 over the (label, distance) pairs of the search.
  \<open>results\<close> holds the addresses of the accepted copies.
\<close>

fun scan_candidates ::
  "int \<Rightarrow> real \<Rightarrow> ustr option \<Rightarrow> nat \<Rightarrow> (int \<times> real) list \<Rightarrow> nat list \<Rightarrow> storage
     \<Rightarrow> (error + nat list) \<times> storage" where
  "scan_candidates k threshold category' min_severity_level [] results s = (Inr results, s)"
| "scan_candidates k threshold category' min_severity_level ((idx, distance) # rest) results s =
     (if idx < int (length (patterns s))
      then
       (case py_index (patterns s) idx of
          Inl e \<Rightarrow> (Inl e, s)
        | Inr stored \<Rightarrow>
            (case copy_with_score stored (1 / (1 + distance)) s of
               (pattern, s1) \<Rightarrow>
                 (case passes_filters threshold category' min_severity_level
                         (heap s1 ! pattern) (1 / (1 + distance)) of
                    Inl e \<Rightarrow> (Inl e, s1)
                  | Inr False \<Rightarrow>
                      scan_candidates k threshold category' min_severity_level rest results s1
                  | Inr True \<Rightarrow>
                      (let results' = results @ [pattern]
                       in if int (length results') \<ge> k then (Inr results', s1)
                          else scan_candidates k threshold category' min_severity_level
                                 rest results' s1))))
      else scan_candidates k threshold category' min_severity_level rest results s)"

definition retrieve_relevant ::
  "settings \<Rightarrow> provider \<Rightarrow> ustr \<Rightarrow> int \<Rightarrow> ustr option \<Rightarrow> ustr \<Rightarrow> real option \<Rightarrow> storage
     \<Rightarrow> nat list \<times> storage" where
  "retrieve_relevant st api question k category' min_severity threshold0 s =
     (case index s of
        None \<Rightarrow> ([], s)
      | Some ix \<Rightarrow>
          if length (patterns s) = 0 then ([], s)
          else
           (let threshold = (case threshold0 of
                               None \<Rightarrow> RAG_RELEVANCE_THRESHOLD st
                             | Some t \<Rightarrow> t)
            in case embed st api question (cache s) of
                 (Inl e, cache1) \<Rightarrow> ([], s\<lparr> cache := cache1 \<rparr>)
               | (Inr query_embedding, cache1) \<Rightarrow>
                   (let s1 = s\<lparr> cache := cache1 \<rparr>;
                        search_k = min (k * 3) (int (length (patterns s1)))
                    in case faiss_search ix query_embedding search_k of
                         Inl e \<Rightarrow> ([], s1)
                       | Inr candidates \<Rightarrow>
                           (case scan_candidates k threshold category'
                                   (severity_level min_severity) candidates [] s1 of
                              (Inl e, s2) \<Rightarrow> ([], s2)
                            | (Inr results, s2) \<Rightarrow> (results, s2)))))"

section \<open>Vector store (optimizer/rag/vector\_store.py)\<close>

record vector_store =
  vs_cache :: embedding_cache
  vs_index :: "faiss_index option"
  metadata :: "pydict list"
  texts :: "ustr list"

text \<open>
  \<open>build\<close>.  An entity enters as the pair of its \<open>to_text()\<close> and its
  \<open>get_metadata()\<close>, in the order of the flattened \<open>all_entities\<close> list.
\<close>

definition build ::
  "settings \<Rightarrow> provider \<Rightarrow> (ustr \<times> pydict) list \<Rightarrow> vector_store
     \<Rightarrow> (error + unit) \<times> vector_store" where
  "build st api all_entities vs =
     (let new_texts = map fst all_entities;
          new_metadata = map snd all_entities
      in case embed_batch st api (map PStr new_texts) (vs_cache vs) of
           (Inl e, cache1) \<Rightarrow> (Inl e, vs\<lparr> vs_cache := cache1 \<rparr>)
         | (Inr embeddings, cache1) \<Rightarrow>
             (let vs1 = vs\<lparr> vs_cache := cache1 \<rparr>
              in case np_array embeddings of
                   Inl e \<Rightarrow> (Inl e, vs1)
                 | Inr embeddings_np \<Rightarrow>
                     (let ix = IndexFlatL2 (EMBEDDING_DIMENSION st);
                          vs2 = vs1\<lparr> vs_index := Some ix \<rparr>
                      in case faiss_add ix embeddings_np of
                           Inl e \<Rightarrow> (Inl e, vs2)
                         | Inr ix' \<Rightarrow>
                             (Inr (), vs2\<lparr> vs_index := Some ix', metadata := new_metadata,
                                             texts := new_texts \<rparr>))))"

text \<open>The loop of lines 99 to 108 of \<open>search\<close>.\<close>

fun format_results :: "pydict list \<Rightarrow> ustr list \<Rightarrow> (int \<times> real) list \<Rightarrow> error + pydict list" where
  "format_results md tx [] = Inr []"
| "format_results md tx ((idx, distance) # rest) =
     (if idx < int (length md)
      then
       (case py_index md idx of
          Inl e \<Rightarrow> Inl e
        | Inr m \<Rightarrow>
            (case py_index tx idx of
               Inl e \<Rightarrow> Inl e
             | Inr content \<Rightarrow>
                 (case format_results md tx rest of
                    Inl e \<Rightarrow> Inl e
                  | Inr results \<Rightarrow>
                      Inr (m(''content'' \<mapsto> PStr content, ''distance'' \<mapsto> PFloat distance,
                             ''similarity'' \<mapsto> PFloat (1 / (1 + distance))) # results))))
      else format_results md tx rest)"

definition search ::
  "settings \<Rightarrow> provider \<Rightarrow> ustr \<Rightarrow> int \<Rightarrow> vector_store \<Rightarrow> (error + pydict list) \<times> vector_store" where
  "search st api query k vs =
     (case vs_index vs of
        None \<Rightarrow> (Inl RuntimeError, vs)
      | Some ix \<Rightarrow>
          (case embed st api query (vs_cache vs) of
             (Inl e, cache1) \<Rightarrow> (Inl e, vs\<lparr> vs_cache := cache1 \<rparr>)
           | (Inr query_embedding, cache1) \<Rightarrow>
               (let vs1 = vs\<lparr> vs_cache := cache1 \<rparr>
                in case faiss_search ix query_embedding k of
                     Inl e \<Rightarrow> (Inl e, vs1)
                   | Inr found \<Rightarrow> (format_results (metadata vs1) (texts vs1) found, vs1))))"

section \<open>Example data\<close>

text \<open>
  A table of one weakness \<open>W1\<close> with frequency 0.5 whose only trigger is the
  keyword U+7CD6 U+5C3F U+75C5 (diabetes), and a question of eight characters that
  starts with that keyword.
\<close>

definition W1 :: weakness where
  "W1 = \<lparr> weakness_id = ascii ''W1'', category = ascii ''diseases'',
          subcategory = ascii ''chronic'', description = ascii ''misses symptoms'',
          severity = ascii ''major'', frequency = 0.5,
          prompt_addition = ascii ''List every symptom.'',
          triggers = \<lparr> entity_types = [], trigger_keywords = [[31958, 23615, 30149]],
                       question_patterns = [] \<rparr> \<rparr>"

definition question1 :: ustr where
  "question1 = [31958, 23615, 30149, 26377, 20160, 20040, 30151, 29366]"

text \<open>
  A table of six weaknesses for the question \<open>question1\<close> and the entity type
  \<open>diseases\<close>: \<open>W2\<close> has frequency 0.1; \<open>W3\<close> lists the entity type and the
  keyword (score 0.70); the keyword of \<open>W4\<close> is not in the question (score 0); \<open>W1\<close>,
  \<open>W5\<close> and \<open>W6\<close> score 0.40 with frequencies 0.5, 0.9 and 0.5.  \<open>W7\<close> is a
  weakness whose file gives it the frequency 1.5.
\<close>

definition W2 :: weakness where
  "W2 = \<lparr> weakness_id = ascii ''W2'', category = ascii ''diseases'',
          subcategory = ascii ''chronic'', description = ascii ''rare slip'',
          severity = ascii ''minor'', frequency = 0.1,
          prompt_addition = ascii ''Check units.'',
          triggers = \<lparr> entity_types = [], trigger_keywords = [[31958, 23615, 30149]],
                       question_patterns = [] \<rparr> \<rparr>"

definition W3 :: weakness where
  "W3 = \<lparr> weakness_id = ascii ''W3'', category = ascii ''diseases'',
          subcategory = ascii ''chronic'', description = ascii ''misses complications'',
          severity = ascii ''critical'', frequency = 0.3,
          prompt_addition = ascii ''List complications.'',
          triggers = \<lparr> entity_types = [ascii ''diseases''],
                       trigger_keywords = [[31958, 23615, 30149]],
                       question_patterns = [] \<rparr> \<rparr>"

definition W4 :: weakness where
  "W4 = \<lparr> weakness_id = ascii ''W4'', category = ascii ''vaccines'',
          subcategory = ascii ''schedule'', description = ascii ''wrong interval'',
          severity = ascii ''major'', frequency = 0.8,
          prompt_addition = ascii ''State the interval.'',
          triggers = \<lparr> entity_types = [], trigger_keywords = [[30123, 33495]],
                       question_patterns = [] \<rparr> \<rparr>"

definition W5 :: weakness where
  "W5 = \<lparr> weakness_id = ascii ''W5'', category = ascii ''diseases'',
          subcategory = ascii ''chronic'', description = ascii ''vague treatment'',
          severity = ascii ''major'', frequency = 0.9,
          prompt_addition = ascii ''Name the treatment.'',
          triggers = \<lparr> entity_types = [], trigger_keywords = [[31958, 23615, 30149]],
                       question_patterns = [] \<rparr> \<rparr>"

definition W6 :: weakness where
  "W6 = \<lparr> weakness_id = ascii ''W6'', category = ascii ''diseases'',
          subcategory = ascii ''chronic'', description = ascii ''omits causes'',
          severity = ascii ''minor'', frequency = 0.5,
          prompt_addition = ascii ''Name the causes.'',
          triggers = \<lparr> entity_types = [], trigger_keywords = [[31958, 23615, 30149]],
                       question_patterns = [] \<rparr> \<rparr>"

definition W7 :: weakness where
  "W7 = \<lparr> weakness_id = ascii ''W7'', category = ascii ''diseases'',
          subcategory = ascii ''chronic'', description = ascii ''miscounted'',
          severity = ascii ''minor'', frequency = 1.5,
          prompt_addition = ascii ''Recount.'',
          triggers = \<lparr> entity_types = [], trigger_keywords = [[31958, 23615, 30149]],
                       question_patterns = [] \<rparr> \<rparr>"

definition table6 :: "weakness list" where
  "table6 = [W1, W2, W3, W4, W5, W6]"

text \<open>
  An engine with two entity names (U+7CD6 U+5C3F U+75C5 and the four characters
  U+51A0 U+72B6 U+52A8 U+8109), the table \<open>[W1]\<close> and the keyword sets of the source.
\<close>

definition engine1 :: engine where
  "engine1 =
     \<lparr> entities_by_category =
         EntityObject
           [(ascii ''diseases'', Names [[31958, 23615, 30149], [20896, 29366, 21160, 33033]])],
       all_entities_set = [[31958, 23615, 30149], [20896, 29366, 21160, 33033]],
       weakness_matcher = [W1],
       entity_mtime = 0, weakness_mtime = 0, last_reload_check = 0,
       category_keywords = CATEGORY_KEYWORDS, ood_keywords = OOD_KEYWORDS \<rparr>"

definition settings1 :: router_settings where
  "settings1 = \<lparr> ENABLE_HOT_RELOAD = True, WEAKNESS_TOP_K = 2, WEAKNESS_MIN_FREQUENCY = 0.15 \<rparr>"

text \<open>A disk without the two data files, and one where both are unparseable.\<close>

definition no_files :: file_system where
  "no_files = \<lparr> entity_file = Missing, entity_file_mtime = 0,
                 weakness_file = Missing, weakness_file_mtime = 0 \<rparr>"

definition malformed_files :: file_system where
  "malformed_files = \<lparr> entity_file = Malformed, entity_file_mtime = 5,
                        weakness_file = Malformed, weakness_file_mtime = 5 \<rparr>"

text \<open>
  A disk without the entity-name file whose weakness file holds the table \<open>[W1]\<close>,
  and a disk with an unparseable entity-name file whose weakness file is
  \<open>{"weaknesses": null}\<close>.
\<close>

definition weakness_only :: file_system where
  "weakness_only = \<lparr> entity_file = Missing, entity_file_mtime = 0,
                      weakness_file = Parsed (WeaknessObject (Some (WeaknessList [W1]))),
                      weakness_file_mtime = 7 \<rparr>"

definition weakness_null :: file_system where
  "weakness_null = \<lparr> entity_file = Malformed, entity_file_mtime = 5,
                      weakness_file = Parsed (WeaknessObject (Some Unsized)),
                      weakness_file_mtime = 7 \<rparr>"

text \<open>
  The provider raises on the text \<open>bad\<close> and maps every other text to the vector
  (length of the text, 0).  \<open>storage0\<close> is a storage without index and patterns,
  beside four dicts of its caller.  \<open>storage3\<close> holds three patterns, of categories
  \<open>vaccines\<close>, \<open>surgeries\<close> and \<open>general\<close>, with the vectors of their
  descriptions; the one-character question \<open>q\<close> lies at squared distances 1, 0 and
  4 from them.
\<close>

definition settings2 :: settings where
  "settings2 = \<lparr> USE_EMBEDDING_CACHE = True, EMBEDDING_DIMENSION = 2,
                  RAG_RELEVANCE_THRESHOLD = 0.65 \<rparr>"

definition provider1 :: provider where
  "provider1 text =
     (if text = ascii ''bad'' then Inl ProviderError else Inr [real (length text), 0])"

definition pattern_a :: pydict where
  "pattern_a = [''description'' \<mapsto> PStr (ascii ''mg''), ''category'' \<mapsto> PStr (ascii ''vaccines''),
                ''severity'' \<mapsto> PStr (ascii ''major''), ''id'' \<mapsto> PInt 0]"

definition pattern_b :: pydict where
  "pattern_b = [''description'' \<mapsto> PStr (ascii ''x''), ''category'' \<mapsto> PStr (ascii ''surgeries''),
                ''severity'' \<mapsto> PStr (ascii ''critical''), ''id'' \<mapsto> PInt 1]"

definition pattern_c :: pydict where
  "pattern_c = [''description'' \<mapsto> PStr (ascii ''fyi''), ''category'' \<mapsto> PStr (ascii ''general''),
                ''severity'' \<mapsto> PStr (ascii ''minor''), ''id'' \<mapsto> PInt 2]"

definition pattern_bad :: pydict where
  "pattern_bad = [''description'' \<mapsto> PStr (ascii ''bad''), ''category'' \<mapsto> PStr (ascii ''general''),
                  ''severity'' \<mapsto> PStr (ascii ''minor'')]"

definition storage0 :: storage where
  "storage0 = \<lparr> cache = Map.empty, heap = [pattern_a, pattern_b, pattern_c, pattern_bad],
                 patterns = [], index = None \<rparr>"

definition storage3 :: storage where
  "storage3 = \<lparr> cache = Map.empty, heap = [pattern_a, pattern_b, pattern_c],
                 patterns = [0, 1, 2],
                 index = Some \<lparr> dim = 2, vectors = [[2, 0], [1, 0], [3, 0]] \<rparr> \<rparr>"




definition storage_loaded :: storage where
  "storage_loaded = \<lparr> cache = Map.empty, heap = [pattern_a, pattern_b, pattern_c],
                       patterns = [0, 1],
                       index = Some \<lparr> dim = 2, vectors = [[2, 0]] \<rparr> \<rparr>"

text \<open>A vector store built from a single entity.\<close>

definition store1 :: vector_store where
  "store1 = \<lparr> vs_cache = Map.empty,
               vs_index = Some \<lparr> dim = 2, vectors = [[3, 0]] \<rparr>,
               metadata = [[''name'' \<mapsto> PStr (ascii ''flu'')]],
               texts = [ascii ''flu''] \<rparr>"

section \<open>Weakness matcher: properties\<close>

lemma str_in_sublist: "str_in kw q \<longleftrightarrow> sublist kw q"
  by (induction q) (simp_all add: sublist_Cons_right)

lemma count_in_sublist: "count_in kws q = length (filter (\<lambda>kw. sublist kw q) kws)"
  by (simp add: count_in_def str_in_sublist)

lemma entity_part_eq:
  "entity_part et ets = (if \<exists>t. et = Some t \<and> t \<noteq> [] \<and> t \<in> set ets then 0.30 else 0)"
  by (cases et) (auto simp: entity_part_def)

lemma keyword_part_eq:
  "keyword_part wt kws q =
     (if length kws = 0 \<or> length (filter (\<lambda>kw. sublist kw q) kws) = 0 then 0
      else wt * min 1 (real (length (filter (\<lambda>kw. sublist kw q) kws)) / real (length kws)))"
  by (simp add: keyword_part_def count_in_sublist Let_def)

lemma score_W1: "calculate_match_score question1 W1 None = 0.40"
  by (simp add: calculate_match_score_def W1_def question1_def entity_part_def
      keyword_part_def count_in_def)

text \<open>
  C3.  The match score is \<open>e + 0.40 * min(1, mk/K) + 0.30 * min(1, mp/P)\<close>: \<open>e\<close> is 0.30
  when \<open>entity_type\<close> is provided (a non-empty string: Python tests its truth value) and
  is a member of \<open>triggers.entity_types\<close>, and 0 otherwise; \<open>mk\<close> counts the \<open>K\<close>
  keywords that are contiguous sublists of the raw question (no case folding), and the
  keyword term is 0 when \<open>K = 0\<close> or \<open>mk = 0\<close>; \<open>mp\<close> and \<open>P\<close> are the same over
  \<open>triggers.question_patterns\<close>.  A weakness whose only trigger is one keyword that
  occurs in the question scores exactly 0.40.  Scores are reals here; \<open>float\<close> rounding
  of the sum is not modelled.
\<close>

theorem calculate_match_score_formula:
  fixes question :: ustr and w :: weakness and entity_type :: "ustr option" and kw :: ustr
  defines "K \<equiv> length (trigger_keywords (triggers w))"
      and "mk \<equiv> length (filter (\<lambda>kw. sublist kw question) (trigger_keywords (triggers w)))"
      and "P \<equiv> length (question_patterns (triggers w))"
      and "mp \<equiv> length (filter (\<lambda>pat. sublist pat question) (question_patterns (triggers w)))"
  shows "calculate_match_score question w entity_type =
           (if \<exists>t. entity_type = Some t \<and> t \<noteq> [] \<and> t \<in> set (entity_types (triggers w))
            then 0.30 else 0)
           + (if K = 0 \<or> mk = 0 then 0 else 0.40 * min 1 (real mk / real K))
           + (if P = 0 \<or> mp = 0 then 0 else 0.30 * min 1 (real mp / real P))
       \<and> (entity_types (triggers w) = [] \<and> trigger_keywords (triggers w) = [kw]
            \<and> question_patterns (triggers w) = [] \<and> sublist kw question
          \<longrightarrow> calculate_match_score question w entity_type = 0.40)"
  unfolding K_def mk_def P_def mp_def
  by (simp add: calculate_match_score_def Let_def entity_part_eq keyword_part_eq)

theorem calculate_match_score_witness:
  "entity_types (triggers W1) = [] \<and> trigger_keywords (triggers W1) = [[31958, 23615, 30149]]
   \<and> question_patterns (triggers W1) = [] \<and> sublist [31958, 23615, 30149] question1
   \<and> calculate_match_score question1 W1 None = 0.40"
proof -
  have t: "entity_types (triggers W1) = [] \<and> trigger_keywords (triggers W1) = [[31958, 23615, 30149]]
           \<and> question_patterns (triggers W1) = []"
    by (simp add: W1_def)
  have "str_in [31958, 23615, 30149] question1"
    by (simp add: question1_def)
  then have s: "sublist [31958, 23615, 30149] question1"
    by (simp add: str_in_sublist)
  show ?thesis
    using calculate_match_score_formula [of question1 W1 None "[31958, 23615, 30149]"] t s
    by blast
qed

lemma mset_insert_desc: "mset (insert_desc x ys) = add_mset x (mset ys)"
  by (induction ys) auto

lemma mset_sort_reverse: "mset (sort_reverse ms) = mset ms"
  by (induction ms) (auto simp: sort_reverse_def mset_insert_desc)

lemma set_insert_desc: "set (insert_desc x ys) = insert x (set ys)"
  by (induction ys) auto

lemma sorted_insert_desc:
  "sorted_wrt (\<lambda>a b. \<not> tuple_less (sort_key_of a) (sort_key_of b)) ys \<Longrightarrow>
   sorted_wrt (\<lambda>a b. \<not> tuple_less (sort_key_of a) (sort_key_of b)) (insert_desc x ys)"
  by (induction ys) (auto simp: set_insert_desc tuple_less_def)

lemma sorted_sort_reverse:
  "sorted_wrt (\<lambda>a b. \<not> tuple_less (sort_key_of a) (sort_key_of b)) (sort_reverse ms)"
  by (induction ms) (auto simp: sort_reverse_def sorted_insert_desc)

lemma filter_insert_desc_same:
  "sorted_wrt (\<lambda>a b. \<not> tuple_less (sort_key_of a) (sort_key_of b)) ys \<Longrightarrow>
   filter (\<lambda>m. sort_key_of m = key) (insert_desc x ys) =
     (if sort_key_of x = key then x # filter (\<lambda>m. sort_key_of m = key) ys
      else filter (\<lambda>m. sort_key_of m = key) ys)"
proof (induction ys)
  case Nil
  then show ?case by simp
next
  case (Cons y ys)
  show ?case
  proof (cases "tuple_less (sort_key_of x) (sort_key_of y)")
    case True
    have neq: "sort_key_of y \<noteq> sort_key_of x"
      using True by (auto simp: tuple_less_def)
    have tail: "sorted_wrt (\<lambda>a b. \<not> tuple_less (sort_key_of a) (sort_key_of b)) ys"
      using Cons.prems by simp
    show ?thesis
      using True neq Cons.IH [OF tail] by auto
  next
    case False
    then show ?thesis by simp
  qed
qed

lemma sort_reverse_stable:
  "filter (\<lambda>m. sort_key_of m = key) (sort_reverse ms) = filter (\<lambda>m. sort_key_of m = key) ms"
proof (induction ms)
  case Nil
  then show ?case by (simp add: sort_reverse_def)
next
  case (Cons m ms)
  have "sort_reverse (m # ms) = insert_desc m (sort_reverse ms)"
    by (simp add: sort_reverse_def)
  then show ?case
    using Cons.IH filter_insert_desc_same [OF sorted_sort_reverse, of key m ms] by simp
qed

lemma collect_matches_high_min:
  "\<forall>w\<in>set ws. frequency w < mf \<Longrightarrow> collect_matches q et mf ws = []"
  by (induction ws) auto

lemma entity_part_nonneg: "0 \<le> entity_part et ets"
  by (simp add: entity_part_def)

lemma keyword_part_nonneg: "0 \<le> wt \<Longrightarrow> 0 \<le> keyword_part wt kws q"
  by (simp add: keyword_part_def Let_def)

lemma calculate_match_score_nonneg: "0 \<le> calculate_match_score q w et"
  using entity_part_nonneg [of et "entity_types (triggers w)"]
    keyword_part_nonneg [of "0.40" "trigger_keywords (triggers w)" q]
    keyword_part_nonneg [of "0.30" "question_patterns (triggers w)" q]
  by (simp add: calculate_match_score_def Let_def)

lemma not_tuple_less_keys:
  "\<not> tuple_less (sort_key_of a) (sort_key_of b) \<longleftrightarrow>
     match_score b < match_score a \<or> (match_score b = match_score a \<and> frequency b \<le> frequency a)"
  by (auto simp: tuple_less_def sort_key_of_def)

lemma sorted_sort_reverse_explicit:
  "sorted_wrt (\<lambda>a b. match_score b < match_score a
                      \<or> (match_score b = match_score a \<and> frequency b \<le> frequency a))
     (sort_reverse ms)"
  using sorted_sort_reverse [of ms] by (simp only: not_tuple_less_keys)

lemma sort_reverse_stable_explicit:
  "filter (\<lambda>m. match_score m = sc \<and> frequency m = fr) (sort_reverse ms)
     = filter (\<lambda>m. match_score m = sc \<and> frequency m = fr) ms"
  using sort_reverse_stable [of "(sc, fr)" ms] by (simp add: sort_key_of_def)

lemma collect_matches_explicit:
  "collect_matches q et mf ws =
     map (\<lambda>w. \<lparr> weakness_id = weakness_id w, category = category w,
                 subcategory = subcategory w, description = description w,
                 severity = severity w, frequency = frequency w,
                 prompt_addition = prompt_addition w,
                 match_score = calculate_match_score q w et \<rparr>)
       (filter (\<lambda>w. mf \<le> frequency w \<and> 0 < calculate_match_score q w et) ws)"
  by (induction ws) (auto simp: Let_def make_match_def)

lemma scores_table6:
  "calculate_match_score question1 W1 (Some (ascii ''diseases'')) = 0.40"
  "calculate_match_score question1 W2 (Some (ascii ''diseases'')) = 0.40"
  "calculate_match_score question1 W3 (Some (ascii ''diseases'')) = 0.70"
  "calculate_match_score question1 W4 (Some (ascii ''diseases'')) = 0"
  "calculate_match_score question1 W5 (Some (ascii ''diseases'')) = 0.40"
  "calculate_match_score question1 W6 (Some (ascii ''diseases'')) = 0.40"
  by (simp_all add: calculate_match_score_def W1_def W2_def W3_def W4_def W5_def W6_def
      question1_def entity_part_def keyword_part_def count_in_def ascii_def)

lemma frequencies_table6:
  "frequency W1 = 0.5" "frequency W2 = 0.1" "frequency W3 = 0.3" "frequency W4 = 0.8"
  "frequency W5 = 0.9" "frequency W6 = 0.5"
  by (simp_all add: W1_def W2_def W3_def W4_def W5_def W6_def)

lemma ids_table6:
  "weakness_id W1 = ascii ''W1''" "weakness_id W3 = ascii ''W3''"
  "weakness_id W5 = ascii ''W5''" "weakness_id W6 = ascii ''W6''"
  by (simp_all add: W1_def W3_def W5_def W6_def)

lemma collect_table6:
  "collect_matches question1 (Some (ascii ''diseases'')) 0.15 table6 =
     [make_match W1 0.40, make_match W3 0.70, make_match W5 0.40, make_match W6 0.40]"
  by (simp add: table6_def scores_table6 frequencies_table6 Let_def)

lemma sorted_table6:
  "sort_reverse (collect_matches question1 (Some (ascii ''diseases'')) 0.15 table6) =
     [make_match W3 0.70, make_match W5 0.40, make_match W1 0.40, make_match W6 0.40]"
  unfolding collect_table6
  by (simp add: sort_reverse_def tuple_less_def sort_key_of_def make_match_def frequencies_table6)

lemma match_table6:
  "match_weaknesses table6 question1 (Some (ascii ''diseases'')) 2 0.15 =
     [make_match W3 0.70, make_match W5 0.40]"
  "match_weaknesses table6 question1 (Some (ascii ''diseases'')) 10 0.15 =
     [make_match W3 0.70, make_match W5 0.40, make_match W1 0.40, make_match W6 0.40]"
  "match_weaknesses table6 question1 (Some (ascii ''diseases'')) (- 1) 0.15 =
     [make_match W3 0.70, make_match W5 0.40, make_match W1 0.40]"
  unfolding match_weaknesses_def sorted_table6 by (simp_all add: slice_to_def)

lemma match_W7:
  "match_weaknesses [W7] question1 None 2 1.1 = [make_match W7 0.40]"
proof -
  have s: "calculate_match_score question1 W7 None = 0.40"
    by (simp add: calculate_match_score_def W7_def question1_def entity_part_def
      keyword_part_def count_in_def)
  have "\<not> frequency W7 < 1.1" by (simp add: W7_def)
  then show ?thesis
    by (simp add: match_weaknesses_def slice_to_def s sort_reverse_def)
qed

text \<open>
  C4, as stated, fails for a negative \<open>top_k\<close> and for a table with a frequency above
  1.1.  With \<open>top_k = -1\<close> the slice \<open>[:top_k]\<close> drops the last survivor and three
  weaknesses are returned, which is not at most \<open>top_k\<close>.  The frequency is read from
  the file as it is: a weakness of frequency 1.5 whose keyword is in the question is
  returned with \<open>min_frequency = 1.1\<close>.
\<close>

theorem match_weaknesses_counterexample:
  "map weakness_id (match_weaknesses table6 question1 (Some (ascii ''diseases'')) (- 1) 0.15)
     = [ascii ''W3'', ascii ''W5'', ascii ''W1'']
   \<and> int (length (match_weaknesses table6 question1 (Some (ascii ''diseases'')) (- 1) 0.15)) > - 1
   \<and> frequency W7 = 1.5
   \<and> map weakness_id (match_weaknesses [W7] question1 None 2 1.1) = [ascii ''W7'']"
proof -
  have "frequency W7 = 1.5" "weakness_id W7 = ascii ''W7''" by (simp_all add: W7_def)
  then show ?thesis
    unfolding match_table6 match_W7 by (simp add: make_match_def ids_table6)
qed

text \<open>
  C4, amended.  The survivors are the weaknesses of the table, in table order, whose
  frequency is at least \<open>min_frequency\<close> and whose score is positive (no score is
  negative, so these are the ones whose score is not 0); each enters the result with
  its seven fields and its score.  For every question, entity\_type, \<open>top_k\<close> and
  \<open>min_frequency\<close> there is a ranking of the survivors, a permutation of them in which
  every element is followed only by elements with a smaller score, or the same score
  and a frequency that is not greater, and in which elements with the same score and
  frequency keep their table order; \<open>match_weaknesses\<close> returns the first \<open>top_k\<close>
  elements of the ranking when \<open>0 \<le> top_k\<close>, so at most \<open>top_k\<close> of them, and the
  ranking without its last \<open>-top_k\<close> elements when \<open>top_k < 0\<close>.  When every frequency
  of the table is below 1.1, \<open>min_frequency = 1.1\<close> gives the empty list for every
  question.  Scores are reals here: \<open>float\<close> rounding of a score is not modelled, so
  two scores count as tied when they are equal as reals.
\<close>

theorem match_weaknesses_filter_sort_truncate:
  fixes ws :: "weakness list" and q :: ustr and et :: "ustr option" and top_k :: int and mf :: real
  defines "survivors \<equiv>
             map (\<lambda>w. \<lparr> weakness_id = weakness_id w, category = category w,
                         subcategory = subcategory w, description = description w,
                         severity = severity w, frequency = frequency w,
                         prompt_addition = prompt_addition w,
                         match_score = calculate_match_score q w et \<rparr>)
               (filter (\<lambda>w. mf \<le> frequency w \<and> 0 < calculate_match_score q w et) ws)"
  shows "(\<exists>ranked.
            mset ranked = mset survivors
          \<and> sorted_wrt (\<lambda>a b. match_score b < match_score a
                               \<or> (match_score b = match_score a \<and> frequency b \<le> frequency a))
              ranked
          \<and> (\<forall>sc fr. filter (\<lambda>m. match_score m = sc \<and> frequency m = fr) ranked
                      = filter (\<lambda>m. match_score m = sc \<and> frequency m = fr) survivors)
          \<and> match_weaknesses ws q et top_k mf =
              (if 0 \<le> top_k then take (nat top_k) ranked
               else take (length ranked - nat (- top_k)) ranked))
       \<and> (0 \<le> top_k \<longrightarrow> length (match_weaknesses ws q et top_k mf) \<le> nat top_k)
       \<and> set (match_weaknesses ws q et top_k mf) \<subseteq> set survivors
       \<and> (\<forall>w. 0 \<le> calculate_match_score q w et)
       \<and> ((\<forall>w\<in>set ws. frequency w < 1.1) \<longrightarrow> match_weaknesses ws q et top_k 1.1 = [])"
proof -
  have cm: "collect_matches q et mf ws = survivors"
    unfolding survivors_def by (rule collect_matches_explicit)
  let ?ranked = "sort_reverse survivors"
  have eq: "match_weaknesses ws q et top_k mf =
              (if 0 \<le> top_k then take (nat top_k) ?ranked
               else take (length ?ranked - nat (- top_k)) ?ranked)"
    by (simp add: match_weaknesses_def cm slice_to_def)
  have stable: "\<forall>sc fr. filter (\<lambda>m. match_score m = sc \<and> frequency m = fr) ?ranked
                      = filter (\<lambda>m. match_score m = sc \<and> frequency m = fr) survivors"
    by (simp add: sort_reverse_stable_explicit)
  have ex: "\<exists>ranked.
            mset ranked = mset survivors
          \<and> sorted_wrt (\<lambda>a b. match_score b < match_score a
                               \<or> (match_score b = match_score a \<and> frequency b \<le> frequency a))
              ranked
          \<and> (\<forall>sc fr. filter (\<lambda>m. match_score m = sc \<and> frequency m = fr) ranked
                      = filter (\<lambda>m. match_score m = sc \<and> frequency m = fr) survivors)
          \<and> match_weaknesses ws q et top_k mf =
              (if 0 \<le> top_k then take (nat top_k) ranked
               else take (length ranked - nat (- top_k)) ranked)"
    by (intro exI [of _ ?ranked] conjI)
       (rule mset_sort_reverse, rule sorted_sort_reverse_explicit, rule stable, rule eq)
  have count: "0 \<le> top_k \<longrightarrow> length (match_weaknesses ws q et top_k mf) \<le> nat top_k"
    using eq by simp
  have "set (match_weaknesses ws q et top_k mf) \<subseteq> set ?ranked"
    unfolding eq by (auto dest: in_set_takeD)
  also have "\<dots> = set survivors"
    using mset_sort_reverse [of survivors] by (metis set_mset_mset)
  finally have members: "set (match_weaknesses ws q et top_k mf) \<subseteq> set survivors" .
  have nonneg: "\<forall>w. 0 \<le> calculate_match_score q w et"
    by (simp add: calculate_match_score_nonneg)
  have high: "(\<forall>w\<in>set ws. frequency w < 1.1) \<longrightarrow> match_weaknesses ws q et top_k 1.1 = []"
  proof
    assume "\<forall>w\<in>set ws. frequency w < 1.1"
    then have "collect_matches q et 1.1 ws = []"
      by (rule collect_matches_high_min)
    then show "match_weaknesses ws q et top_k 1.1 = []"
      by (simp add: match_weaknesses_def slice_to_def sort_reverse_def)
  qed
  show ?thesis
    by (intro conjI) (rule ex, rule count, rule members, rule nonneg, rule high)
qed

theorem match_weaknesses_witness:
  "(0::int) \<le> 2
   \<and> length (match_weaknesses table6 question1 (Some (ascii ''diseases'')) 2 0.15) \<le> nat 2
   \<and> map weakness_id (match_weaknesses table6 question1 (Some (ascii ''diseases'')) 2 0.15)
       = [ascii ''W3'', ascii ''W5'']
   \<and> map match_score (match_weaknesses table6 question1 (Some (ascii ''diseases'')) 2 0.15)
       = [0.70, 0.40]
   \<and> map frequency (match_weaknesses table6 question1 (Some (ascii ''diseases'')) 2 0.15)
       = [0.3, 0.9]
   \<and> map weakness_id (match_weaknesses table6 question1 (Some (ascii ''diseases'')) 10 0.15)
       = [ascii ''W3'', ascii ''W5'', ascii ''W1'', ascii ''W6'']
   \<and> map match_score (match_weaknesses table6 question1 (Some (ascii ''diseases'')) 10 0.15)
       = [0.70, 0.40, 0.40, 0.40]
   \<and> map frequency (match_weaknesses table6 question1 (Some (ascii ''diseases'')) 10 0.15)
       = [0.3, 0.9, 0.5, 0.5]
   \<and> frequency W1 < 1.1 \<and> frequency W2 < 1.1 \<and> frequency W3 < 1.1 \<and> frequency W4 < 1.1
   \<and> frequency W5 < 1.1 \<and> frequency W6 < 1.1
   \<and> match_weaknesses table6 question1 (Some (ascii ''diseases'')) 2 1.1 = []"
proof -
  have k: "(0::int) \<le> 2" by simp
  have f: "frequency W1 < 1.1 \<and> frequency W2 < 1.1 \<and> frequency W3 < 1.1 \<and> frequency W4 < 1.1
   \<and> frequency W5 < 1.1 \<and> frequency W6 < 1.1"
    by (simp add: frequencies_table6)
  then have fs: "\<forall>w\<in>set table6. frequency w < 1.1"
    by (simp add: table6_def)
  note t = match_weaknesses_filter_sort_truncate
             [where ws = table6 and q = question1 and et = "Some (ascii ''diseases'')"
                and top_k = 2 and mf = "0.15"]
  have len: "length (match_weaknesses table6 question1 (Some (ascii ''diseases'')) 2 0.15) \<le> nat 2"
    using t [THEN conjunct2, THEN conjunct1] k by blast
  have none: "match_weaknesses table6 question1 (Some (ascii ''diseases'')) 2 1.1 = []"
    using t [THEN conjunct2, THEN conjunct2, THEN conjunct2, THEN conjunct2] fs by blast
  have runs:
    "map weakness_id (match_weaknesses table6 question1 (Some (ascii ''diseases'')) 2 0.15)
       = [ascii ''W3'', ascii ''W5'']"
    "map match_score (match_weaknesses table6 question1 (Some (ascii ''diseases'')) 2 0.15)
       = [0.70, 0.40]"
    "map frequency (match_weaknesses table6 question1 (Some (ascii ''diseases'')) 2 0.15)
       = [0.3, 0.9]"
    "map weakness_id (match_weaknesses table6 question1 (Some (ascii ''diseases'')) 10 0.15)
       = [ascii ''W3'', ascii ''W5'', ascii ''W1'', ascii ''W6'']"
    "map match_score (match_weaknesses table6 question1 (Some (ascii ''diseases'')) 10 0.15)
       = [0.70, 0.40, 0.40, 0.40]"
    "map frequency (match_weaknesses table6 question1 (Some (ascii ''diseases'')) 10 0.15)
       = [0.3, 0.9, 0.5, 0.5]"
    unfolding match_table6 by (simp_all add: make_match_def ids_table6 frequencies_table6)
  show ?thesis using k len runs f none by blast
qed

section \<open>Decision engine: properties\<close>

lemma find_sublist_None:
  "find (\<lambda>n. str_in n q) xs = None \<longleftrightarrow> \<not> (\<exists>n\<in>set xs. sublist n q)"
  by (auto simp: find_None_iff str_in_sublist)

lemma find_sublist_Some:
  "find (\<lambda>n. str_in n q) xs = Some n \<Longrightarrow> n \<in> set xs \<and> sublist n q"
  by (auto simp: find_Some_iff str_in_sublist)

lemma category_hit_sublist:
  "category_hit q ck \<longleftrightarrow> (\<exists>kw\<in>set (snd ck). sublist kw q)"
  by (simp add: category_hit_def list_ex_iff str_in_sublist)

lemma partial_hit_sublist:
  "partial_hit q n \<longleftrightarrow> (3 \<le> length n \<and> sublist (take 3 n) q \<and> take 3 n \<notin> set generic_prefixes)"
  by (auto simp: partial_hit_def Let_def str_in_sublist min_def)

lemma find_partial_None:
  "find (partial_hit q) xs = None \<longleftrightarrow>
     \<not> (\<exists>n\<in>set xs. 3 \<le> length n \<and> sublist (take 3 n) q \<and> take 3 n \<notin> set generic_prefixes)"
  by (auto simp: find_None_iff partial_hit_sublist)

lemma find_partial_Some:
  "find (partial_hit q) xs = Some n \<Longrightarrow>
     n \<in> set xs \<and> 3 \<le> length n \<and> sublist (take 3 n) q \<and> take 3 n \<notin> set generic_prefixes"
  by (auto simp: find_Some_iff partial_hit_sublist)

lemma filter_category_hit:
  "filter (category_hit q) cks = filter (\<lambda>ck. \<exists>kw\<in>set (snd ck). sublist kw q) cks"
  by (rule filter_cong) (simp_all add: category_hit_sublist)

text \<open>
  C2.  \<open>should_use_rag\<close> is a cascade in which the first matching step decides.
  (1) If an entity name of the entity set is a contiguous sublist of the question, the
  result is \<open>True\<close>, the reason \<open>Exact match: 'n'\<close> for such a name \<open>n\<close>, and 0.95.
  (2) Otherwise, if an out-of-domain keyword occurs, the result is \<open>False\<close>, a reason
  naming such a keyword, and 0.90.  (3) Otherwise two or more matched category keyword
  sets give \<open>True\<close> and 0.75, the reason listing the matched categories in dict order,
  and (4) exactly one gives \<open>True\<close> and 0.65.  (5) Otherwise, if the first three
  characters of an entity name of length at least three occur in the question and are
  not one of the three generic words, the result is \<open>True\<close>, a reason naming such an
  entity, and 0.60.  (6) Otherwise the result is \<open>True\<close>,
  \<open>Uncertain - defer to threshold filter\<close> and 0.50.  The confidence is always one of
  the six values, and the result is the same for every \<open>min_confidence\<close>.  This
  holds for every engine, whatever the order in which its sets are iterated.
\<close>

theorem should_use_rag_cascade:
  fixes e :: engine and q :: ustr and mc mc' :: real
  defines "exact \<equiv> \<exists>n\<in>set (all_entities_set e). sublist n q"
      and "ood \<equiv> \<exists>kw\<in>set (ood_keywords e). sublist kw q"
      and "cats \<equiv> map fst (filter (\<lambda>ck. \<exists>kw\<in>set (snd ck). sublist kw q) (category_keywords e))"
      and "part \<equiv> \<exists>n\<in>set (all_entities_set e).
                      3 \<le> length n \<and> sublist (take 3 n) q \<and> take 3 n \<notin> set generic_prefixes"
  shows "(exact \<longrightarrow>
            (\<exists>n\<in>set (all_entities_set e). sublist n q \<and>
               should_use_rag e q mc = (True, ascii ''Exact match: '' @ [39] @ n @ [39], 0.95)))
       \<and> (\<not> exact \<and> ood \<longrightarrow>
            (\<exists>kw\<in>set (ood_keywords e). sublist kw q \<and>
               should_use_rag e q mc = (False, ascii ''Known OOD topic: '' @ [39] @ kw @ [39], 0.90)))
       \<and> (\<not> exact \<and> \<not> ood \<and> 2 \<le> length cats \<longrightarrow>
            should_use_rag e q mc =
              (True, ascii ''Multiple category matches: '' @ join (ascii '', '') cats, 0.75))
       \<and> (\<not> exact \<and> \<not> ood \<and> length cats = 1 \<longrightarrow>
            should_use_rag e q mc = (True, ascii ''Category match: '' @ hd cats, 0.65))
       \<and> (\<not> exact \<and> \<not> ood \<and> cats = [] \<and> part \<longrightarrow>
            (\<exists>n\<in>set (all_entities_set e).
               3 \<le> length n \<and> sublist (take 3 n) q \<and> take 3 n \<notin> set generic_prefixes \<and>
               should_use_rag e q mc = (True, ascii ''Partial match: '' @ [39] @ n @ [39], 0.60)))
       \<and> (\<not> exact \<and> \<not> ood \<and> cats = [] \<and> \<not> part \<longrightarrow>
            should_use_rag e q mc = (True, ascii ''Uncertain - defer to threshold filter'', 0.50))
       \<and> snd (snd (should_use_rag e q mc)) \<in> {0.95, 0.90, 0.75, 0.65, 0.60, 0.50}
       \<and> should_use_rag e q mc' = should_use_rag e q mc"
proof -
  let ?f1 = "find (\<lambda>n. str_in n q) (all_entities_set e)"
  let ?f2 = "find (\<lambda>kw. str_in kw q) (ood_keywords e)"
  let ?f4 = "find (partial_hit q) (all_entities_set e)"
  have cats_eq: "map fst (filter (category_hit q) (category_keywords e)) = cats"
    by (simp add: cats_def filter_category_hit)
  have b1: "exact \<longrightarrow>
            (\<exists>n\<in>set (all_entities_set e). sublist n q \<and>
               should_use_rag e q mc = (True, ascii ''Exact match: '' @ [39] @ n @ [39], 0.95))"
  proof
    assume exact
    then obtain n where n: "?f1 = Some n"
      using find_sublist_None [of q "all_entities_set e"] by (auto simp: exact_def)
    have "should_use_rag e q mc = (True, ascii ''Exact match: '' @ [39] @ n @ [39], 0.95)"
      using n by (simp add: should_use_rag_def apostrophe_def)
    then show "\<exists>n\<in>set (all_entities_set e). sublist n q \<and>
               should_use_rag e q mc = (True, ascii ''Exact match: '' @ [39] @ n @ [39], 0.95)"
      using find_sublist_Some [OF n] by blast
  qed
  have n1: "\<not> exact \<Longrightarrow> ?f1 = None"
    by (simp add: find_sublist_None exact_def)
  have n2: "\<not> ood \<Longrightarrow> ?f2 = None"
    by (simp add: find_sublist_None ood_def)
  have b2: "\<not> exact \<and> ood \<longrightarrow>
            (\<exists>kw\<in>set (ood_keywords e). sublist kw q \<and>
               should_use_rag e q mc = (False, ascii ''Known OOD topic: '' @ [39] @ kw @ [39], 0.90))"
  proof
    assume a: "\<not> exact \<and> ood"
    then obtain kw where kw: "?f2 = Some kw"
      using find_sublist_None [of q "ood_keywords e"] by (auto simp: ood_def)
    have "should_use_rag e q mc = (False, ascii ''Known OOD topic: '' @ [39] @ kw @ [39], 0.90)"
      using kw n1 a by (simp add: should_use_rag_def apostrophe_def)
    then show "\<exists>kw\<in>set (ood_keywords e). sublist kw q \<and>
               should_use_rag e q mc = (False, ascii ''Known OOD topic: '' @ [39] @ kw @ [39], 0.90)"
      using find_sublist_Some [OF kw] by blast
  qed
  have b3: "\<not> exact \<and> \<not> ood \<and> 2 \<le> length cats \<longrightarrow>
            should_use_rag e q mc =
              (True, ascii ''Multiple category matches: '' @ join (ascii '', '') cats, 0.75)"
    using n1 n2 by (simp add: should_use_rag_def cats_eq Let_def)
  have b4: "\<not> exact \<and> \<not> ood \<and> length cats = 1 \<longrightarrow>
            should_use_rag e q mc = (True, ascii ''Category match: '' @ hd cats, 0.65)"
    using n1 n2 by (simp add: should_use_rag_def cats_eq Let_def)
  have b5: "\<not> exact \<and> \<not> ood \<and> cats = [] \<and> part \<longrightarrow>
            (\<exists>n\<in>set (all_entities_set e).
               3 \<le> length n \<and> sublist (take 3 n) q \<and> take 3 n \<notin> set generic_prefixes \<and>
               should_use_rag e q mc = (True, ascii ''Partial match: '' @ [39] @ n @ [39], 0.60))"
  proof
    assume a: "\<not> exact \<and> \<not> ood \<and> cats = [] \<and> part"
    then obtain n where n: "?f4 = Some n"
      using find_partial_None [of q "all_entities_set e"] by (auto simp: part_def)
    have "should_use_rag e q mc = (True, ascii ''Partial match: '' @ [39] @ n @ [39], 0.60)"
      using n n1 n2 a by (simp add: should_use_rag_def cats_eq Let_def apostrophe_def)
    then show "\<exists>n\<in>set (all_entities_set e).
               3 \<le> length n \<and> sublist (take 3 n) q \<and> take 3 n \<notin> set generic_prefixes \<and>
               should_use_rag e q mc = (True, ascii ''Partial match: '' @ [39] @ n @ [39], 0.60)"
      using find_partial_Some [OF n] by blast
  qed
  have b6: "\<not> exact \<and> \<not> ood \<and> cats = [] \<and> \<not> part \<longrightarrow>
            should_use_rag e q mc = (True, ascii ''Uncertain - defer to threshold filter'', 0.50)"
  proof
    assume a: "\<not> exact \<and> \<not> ood \<and> cats = [] \<and> \<not> part"
    then have "?f4 = None"
      by (simp add: find_partial_None part_def)
    then show "should_use_rag e q mc = (True, ascii ''Uncertain - defer to threshold filter'', 0.50)"
      using n1 n2 a by (simp add: should_use_rag_def cats_eq Let_def)
  qed
  have conf: "snd (snd (should_use_rag e q mc)) \<in> {0.95, 0.90, 0.75, 0.65, 0.60, 0.50}"
    by (simp add: should_use_rag_def Let_def split: option.split)
  have indep: "should_use_rag e q mc' = should_use_rag e q mc"
    by (simp add: should_use_rag_def)
  show ?thesis
    using b1 b2 b3 b4 b5 b6 conf indep by blast
qed

lemma sublist_eval: "sublist kw q = str_in kw q"
  by (simp add: str_in_sublist)

theorem should_use_rag_witness:
  "should_use_rag engine1 question1 0.70 =
     (True, ascii ''Exact match: '' @ [39] @ [31958, 23615, 30149] @ [39], 0.95)
   \<and> should_use_rag engine1 [34880, 31649, 30244] 0.70 =
     (False, ascii ''Known OOD topic: '' @ [39] @ [34880, 31649, 30244] @ [39], 0.90)
   \<and> should_use_rag engine1 [26816, 26597, 25163, 26415] 0.70 =
     (True, ascii ''Multiple category matches: '' @
            join (ascii '', '') [ascii ''examinations'', ascii ''surgeries''], 0.75)
   \<and> should_use_rag engine1 [30123, 33495] 0.70 =
     (True, ascii ''Category match: '' @ ascii ''vaccines'', 0.65)
   \<and> should_use_rag engine1 [20896, 29366, 21160] 0.70 =
     (True, ascii ''Partial match: '' @ [39] @ [20896, 29366, 21160, 33033] @ [39], 0.60)
   \<and> should_use_rag engine1 (ascii ''hello'') 0.70 =
     (True, ascii ''Uncertain - defer to threshold filter'', 0.50)"
proof -
  have ents: "all_entities_set engine1 = [[31958, 23615, 30149], [20896, 29366, 21160, 33033]]"
    and oods: "ood_keywords engine1 = OOD_KEYWORDS"
    and cks: "category_keywords engine1 = CATEGORY_KEYWORDS"
    by (simp_all add: engine1_def)
  \<comment> \<open>step 1\<close>
  have e1: "\<exists>n\<in>set (all_entities_set engine1). sublist n question1"
    by (simp add: ents question1_def sublist_eval)
  have u1: "\<not> sublist [20896, 29366, 21160, 33033] question1"
    by (simp add: question1_def sublist_eval)
  have "\<exists>n\<in>set (all_entities_set engine1). sublist n question1 \<and>
          should_use_rag engine1 question1 0.70 =
            (True, ascii ''Exact match: '' @ [39] @ n @ [39], 0.95)"
    using should_use_rag_cascade [of engine1 question1 "0.70" "0.70"] e1 by blast
  then have r1: "should_use_rag engine1 question1 0.70 =
     (True, ascii ''Exact match: '' @ [39] @ [31958, 23615, 30149] @ [39], 0.95)"
    using u1 by (auto simp: ents)
  \<comment> \<open>step 2\<close>
  let ?q2 = "[34880, 31649, 30244] :: ustr"
  have x2: "\<not> (\<exists>n\<in>set (all_entities_set engine1). sublist n ?q2)"
    by (simp add: ents sublist_eval)
  have o2: "\<exists>kw\<in>set (ood_keywords engine1). sublist kw ?q2"
    by (simp add: oods OOD_KEYWORDS_def sublist_eval ascii_def)
  have only2: "\<forall>kw\<in>set (ood_keywords engine1). sublist kw ?q2 \<longrightarrow> kw = ?q2"
    by (simp add: oods OOD_KEYWORDS_def sublist_eval ascii_def)
  have "\<exists>kw\<in>set (ood_keywords engine1). sublist kw ?q2 \<and>
          should_use_rag engine1 ?q2 0.70 =
            (False, ascii ''Known OOD topic: '' @ [39] @ kw @ [39], 0.90)"
    using should_use_rag_cascade [of engine1 ?q2 "0.70" "0.70"] x2 o2 by blast
  then have r2: "should_use_rag engine1 ?q2 0.70 =
     (False, ascii ''Known OOD topic: '' @ [39] @ ?q2 @ [39], 0.90)"
    using only2 by blast
  \<comment> \<open>step 3\<close>
  let ?q3 = "[26816, 26597, 25163, 26415] :: ustr"
  have x3: "\<not> (\<exists>n\<in>set (all_entities_set engine1). sublist n ?q3)"
    by (simp add: ents sublist_eval)
  have o3: "\<not> (\<exists>kw\<in>set (ood_keywords engine1). sublist kw ?q3)"
    by (simp add: oods OOD_KEYWORDS_def sublist_eval ascii_def)
  have c3: "map fst (filter (\<lambda>ck. \<exists>kw\<in>set (snd ck). sublist kw ?q3) (category_keywords engine1))
              = [ascii ''examinations'', ascii ''surgeries'']"
    by (simp add: cks CATEGORY_KEYWORDS_def sublist_eval ascii_def)
  have r3: "should_use_rag engine1 ?q3 0.70 =
     (True, ascii ''Multiple category matches: '' @
            join (ascii '', '') [ascii ''examinations'', ascii ''surgeries''], 0.75)"
    using should_use_rag_cascade [of engine1 ?q3 "0.70" "0.70"] x3 o3 by (simp add: c3)
  \<comment> \<open>step 4\<close>
  let ?q4 = "[30123, 33495] :: ustr"
  have x4: "\<not> (\<exists>n\<in>set (all_entities_set engine1). sublist n ?q4)"
    by (simp add: ents sublist_eval)
  have o4: "\<not> (\<exists>kw\<in>set (ood_keywords engine1). sublist kw ?q4)"
    by (simp add: oods OOD_KEYWORDS_def sublist_eval ascii_def)
  have c4: "map fst (filter (\<lambda>ck. \<exists>kw\<in>set (snd ck). sublist kw ?q4) (category_keywords engine1))
              = [ascii ''vaccines'']"
    by (simp add: cks CATEGORY_KEYWORDS_def sublist_eval ascii_def)
  have r4: "should_use_rag engine1 ?q4 0.70 = (True, ascii ''Category match: '' @ ascii ''vaccines'', 0.65)"
    using should_use_rag_cascade [of engine1 ?q4 "0.70" "0.70"] x4 o4 by (simp add: c4)
  \<comment> \<open>step 5\<close>
  let ?q5 = "[20896, 29366, 21160] :: ustr"
  have x5: "\<not> (\<exists>n\<in>set (all_entities_set engine1). sublist n ?q5)"
    by (simp add: ents sublist_eval)
  have o5: "\<not> (\<exists>kw\<in>set (ood_keywords engine1). sublist kw ?q5)"
    by (simp add: oods OOD_KEYWORDS_def sublist_eval ascii_def)
  have c5: "map fst (filter (\<lambda>ck. \<exists>kw\<in>set (snd ck). sublist kw ?q5) (category_keywords engine1)) = []"
    by (simp add: cks CATEGORY_KEYWORDS_def sublist_eval ascii_def)
  have p5: "\<exists>n\<in>set (all_entities_set engine1).
              3 \<le> length n \<and> sublist (take 3 n) ?q5 \<and> take 3 n \<notin> set generic_prefixes"
    by (simp add: ents sublist_eval generic_prefixes_def)
  have only5: "\<not> sublist (take 3 [31958, 23615, 30149]) ?q5"
    by (simp add: sublist_eval)
  have "\<exists>n\<in>set (all_entities_set engine1).
          3 \<le> length n \<and> sublist (take 3 n) ?q5 \<and> take 3 n \<notin> set generic_prefixes \<and>
          should_use_rag engine1 ?q5 0.70 = (True, ascii ''Partial match: '' @ [39] @ n @ [39], 0.60)"
    using should_use_rag_cascade [of engine1 ?q5 "0.70" "0.70"] x5 o5 c5 p5 by blast
  then have r5: "should_use_rag engine1 ?q5 0.70 =
     (True, ascii ''Partial match: '' @ [39] @ [20896, 29366, 21160, 33033] @ [39], 0.60)"
    using only5 by (auto simp: ents)
  \<comment> \<open>step 6\<close>
  let ?q6 = "ascii ''hello''"
  have x6: "\<not> (\<exists>n\<in>set (all_entities_set engine1). sublist n ?q6)"
    by (simp add: ents sublist_eval ascii_def)
  have o6: "\<not> (\<exists>kw\<in>set (ood_keywords engine1). sublist kw ?q6)"
    by (simp add: oods OOD_KEYWORDS_def sublist_eval ascii_def)
  have c6: "map fst (filter (\<lambda>ck. \<exists>kw\<in>set (snd ck). sublist kw ?q6) (category_keywords engine1)) = []"
    by (simp add: cks CATEGORY_KEYWORDS_def sublist_eval ascii_def)
  have p6: "\<not> (\<exists>n\<in>set (all_entities_set engine1).
              3 \<le> length n \<and> sublist (take 3 n) ?q6 \<and> take 3 n \<notin> set generic_prefixes)"
    by (simp add: ents sublist_eval ascii_def)
  have r6: "should_use_rag engine1 ?q6 0.70 =
     (True, ascii ''Uncertain - defer to threshold filter'', 0.50)"
    using should_use_rag_cascade [of engine1 ?q6 "0.70" "0.70"] x6 o6 c6 p6 by blast
  show ?thesis
    using r1 r2 r3 r4 r5 r6 by blast
qed

lemma route_weakness:
  assumes "match_weaknesses (weakness_matcher e) q et (WEAKNESS_TOP_K settings)
             (WEAKNESS_MIN_FREQUENCY settings) = wps" and "wps \<noteq> []"
  shows "route settings e q et mc =
           \<lparr> use_rag = True,
             rag_reason = ascii ''Supplemental context for weakness: '' @ weakness_id (hd wps),
             rag_confidence = 0.85, weakness_patterns = wps, has_weaknesses = True,
             routing_tier = ascii ''weakness'', reload_checked_at = last_reload_check e \<rparr>"
  using assms by (simp add: route_def Let_def)

lemma route_no_weakness:
  assumes "match_weaknesses (weakness_matcher e) q et (WEAKNESS_TOP_K settings)
             (WEAKNESS_MIN_FREQUENCY settings) = []"
  shows "route settings e q et mc =
           \<lparr> use_rag = fst (should_use_rag e q mc),
             rag_reason = fst (snd (should_use_rag e q mc)),
             rag_confidence = snd (snd (should_use_rag e q mc)),
             weakness_patterns = [], has_weaknesses = False,
             routing_tier = (if fst (should_use_rag e q mc) then ascii ''rag''
                             else ascii ''baseline''),
             reload_checked_at = last_reload_check e \<rparr>"
  using assms by (simp add: route_def Let_def split: prod.split)

lemma route_fields:
  fixes settings :: router_settings and e :: engine and q :: ustr and et :: "ustr option" and mc :: real
  defines "d \<equiv> route settings e q et mc"
  shows "weakness_patterns d =
           match_weaknesses (weakness_matcher e) q et (WEAKNESS_TOP_K settings)
             (WEAKNESS_MIN_FREQUENCY settings)"
    and "has_weaknesses d = (weakness_patterns d \<noteq> [])"
    and "weakness_patterns d \<noteq> [] \<Longrightarrow>
           use_rag d \<and> rag_confidence d = 0.85 \<and> routing_tier d = ascii ''weakness'' \<and>
           rag_reason d = ascii ''Supplemental context for weakness: '' @
                            weakness_id (hd (weakness_patterns d))"
    and "weakness_patterns d = [] \<Longrightarrow>
           (use_rag d, rag_reason d, rag_confidence d) = should_use_rag e q mc \<and>
           routing_tier d = (if use_rag d then ascii ''rag'' else ascii ''baseline'')"
proof -
  let ?wps = "match_weaknesses (weakness_matcher e) q et (WEAKNESS_TOP_K settings)
             (WEAKNESS_MIN_FREQUENCY settings)"
  show wp: "weakness_patterns d = ?wps"
    unfolding d_def
    by (cases "?wps = []") (simp_all add: route_weakness route_no_weakness)
  show "has_weaknesses d = (weakness_patterns d \<noteq> [])"
    unfolding d_def
    by (cases "?wps = []") (simp_all add: route_weakness route_no_weakness)
  show "weakness_patterns d \<noteq> [] \<Longrightarrow>
           use_rag d \<and> rag_confidence d = 0.85 \<and> routing_tier d = ascii ''weakness'' \<and>
           rag_reason d = ascii ''Supplemental context for weakness: '' @
                            weakness_id (hd (weakness_patterns d))"
  proof -
    assume "weakness_patterns d \<noteq> []"
    then have ne: "?wps \<noteq> []" using wp by simp
    show ?thesis
      unfolding d_def by (simp add: route_weakness [OF refl ne])
  qed
  show "weakness_patterns d = [] \<Longrightarrow>
           (use_rag d, rag_reason d, rag_confidence d) = should_use_rag e q mc \<and>
           routing_tier d = (if use_rag d then ascii ''rag'' else ascii ''baseline'')"
  proof -
    assume "weakness_patterns d = []"
    then have em: "?wps = []" using wp by simp
    show ?thesis
      unfolding d_def by (simp add: route_no_weakness [OF em])
  qed
qed

lemma sublist_append_right: "sublist xs (ys @ xs)"
  by (metis append_Nil2 sublist_appendI)

text \<open>
  C1.  \<open>get_routing_decision\<close> returns unless the hot-reload check raises.  When it
  returns, with \<open>e'\<close> the engine after the reload check and \<open>weakness_patterns\<close> the
  result of \<open>match_weaknesses\<close> on the table of \<open>e'\<close> with the configured \<open>top_k\<close> and
  \<open>min_frequency\<close>: if that list is non-empty then \<open>use_rag\<close> is true,
  \<open>rag_confidence\<close> is 0.85, \<open>routing_tier\<close> is \<open>weakness\<close> and \<open>rag_reason\<close>
  contains the \<open>weakness_id\<close> of the first matched weakness; if it is empty then
  \<open>use_rag\<close>, \<open>rag_reason\<close> and \<open>rag_confidence\<close> are the result of
  \<open>should_use_rag(question, min_confidence)\<close> and \<open>routing_tier\<close> is \<open>rag\<close> when
  \<open>use_rag\<close> is true and \<open>baseline\<close> otherwise.
\<close>

theorem get_routing_decision_tiers:
  fixes settings :: router_settings and fs :: file_system and now :: real and e :: engine
    and q :: ustr and et :: "ustr option" and mc :: real and ar :: bool
  shows "((\<exists>d e'. get_routing_decision settings fs now e q et mc ar = Inr (d, e')) \<longleftrightarrow>
            \<not> (ar \<and> ENABLE_HOT_RELOAD settings \<and> isl (check_for_updates fs now e)))
       \<and> (\<forall>d e'. get_routing_decision settings fs now e q et mc ar = Inr (d, e') \<longrightarrow>
            e' = (if ar \<and> ENABLE_HOT_RELOAD settings
                  then snd (projr (check_for_updates fs now e)) else e)
          \<and> weakness_patterns d =
              match_weaknesses (weakness_matcher e') q et (WEAKNESS_TOP_K settings)
                (WEAKNESS_MIN_FREQUENCY settings)
          \<and> has_weaknesses d = (weakness_patterns d \<noteq> [])
          \<and> (weakness_patterns d \<noteq> [] \<longrightarrow>
                use_rag d \<and> rag_confidence d = 0.85 \<and> routing_tier d = ascii ''weakness'' \<and>
                sublist (weakness_id (hd (weakness_patterns d))) (rag_reason d))
          \<and> (weakness_patterns d = [] \<longrightarrow>
                (use_rag d, rag_reason d, rag_confidence d) = should_use_rag e' q mc \<and>
                routing_tier d = (if use_rag d then ascii ''rag'' else ascii ''baseline'')))"
proof -
  have returns: "(\<exists>d e'. get_routing_decision settings fs now e q et mc ar = Inr (d, e')) \<longleftrightarrow>
            \<not> (ar \<and> ENABLE_HOT_RELOAD settings \<and> isl (check_for_updates fs now e))"
    by (auto simp: get_routing_decision_def split: sum.splits)
  have props: "\<forall>d e'. get_routing_decision settings fs now e q et mc ar = Inr (d, e') \<longrightarrow>
            e' = (if ar \<and> ENABLE_HOT_RELOAD settings
                  then snd (projr (check_for_updates fs now e)) else e)
          \<and> weakness_patterns d =
              match_weaknesses (weakness_matcher e') q et (WEAKNESS_TOP_K settings)
                (WEAKNESS_MIN_FREQUENCY settings)
          \<and> has_weaknesses d = (weakness_patterns d \<noteq> [])
          \<and> (weakness_patterns d \<noteq> [] \<longrightarrow>
                use_rag d \<and> rag_confidence d = 0.85 \<and> routing_tier d = ascii ''weakness'' \<and>
                sublist (weakness_id (hd (weakness_patterns d))) (rag_reason d))
          \<and> (weakness_patterns d = [] \<longrightarrow>
                (use_rag d, rag_reason d, rag_confidence d) = should_use_rag e' q mc \<and>
                routing_tier d = (if use_rag d then ascii ''rag'' else ascii ''baseline''))"
  proof (intro allI impI)
    fix d e'
    assume r: "get_routing_decision settings fs now e q et mc ar = Inr (d, e')"
    have d: "d = route settings e' q et mc"
      using r by (auto simp: get_routing_decision_def split: if_splits sum.splits)
    have e': "e' = (if ar \<and> ENABLE_HOT_RELOAD settings
                  then snd (projr (check_for_updates fs now e)) else e)"
      using r by (auto simp: get_routing_decision_def split: if_splits sum.splits)
    have w: "weakness_patterns d \<noteq> [] \<longrightarrow>
                use_rag d \<and> rag_confidence d = 0.85 \<and> routing_tier d = ascii ''weakness'' \<and>
                sublist (weakness_id (hd (weakness_patterns d))) (rag_reason d)"
      using route_fields(3) [of settings e' q et mc] sublist_append_right
      unfolding d by metis
    show "e' = (if ar \<and> ENABLE_HOT_RELOAD settings
                  then snd (projr (check_for_updates fs now e)) else e)
          \<and> weakness_patterns d =
              match_weaknesses (weakness_matcher e') q et (WEAKNESS_TOP_K settings)
                (WEAKNESS_MIN_FREQUENCY settings)
          \<and> has_weaknesses d = (weakness_patterns d \<noteq> [])
          \<and> (weakness_patterns d \<noteq> [] \<longrightarrow>
                use_rag d \<and> rag_confidence d = 0.85 \<and> routing_tier d = ascii ''weakness'' \<and>
                sublist (weakness_id (hd (weakness_patterns d))) (rag_reason d))
          \<and> (weakness_patterns d = [] \<longrightarrow>
                (use_rag d, rag_reason d, rag_confidence d) = should_use_rag e' q mc \<and>
                routing_tier d = (if use_rag d then ascii ''rag'' else ascii ''baseline''))"
      using e' w route_fields(1,2,4) [of settings e' q et mc]
      unfolding d by blast
  qed
  show ?thesis using returns props by blast
qed

lemma WeaknessMatcher_unloadable:
  "f \<in> {Missing, Malformed} \<Longrightarrow> WeaknessMatcher f = Inr []"
  by (auto simp: WeaknessMatcher_def load_weaknesses_def)

lemma build_entity_set_unloadable:
  "f \<in> {Missing, Malformed} \<Longrightarrow>
     load_entities f =
       EntityObject [(ascii ''diseases'', Names []), (ascii ''examinations'', Names []),
                     (ascii ''surgeries'', Names []), (ascii ''vaccines'', Names [])]
     \<and> build_entity_set (load_entities f) = Inr []"
  by (auto simp: load_entities_def empty_entities_def build_entity_set_def iterate_names_def)

lemma DecisionEngine_Inr:
  "DecisionEngine fs now = Inr e \<Longrightarrow>
     build_entity_set (load_entities (entity_file fs)) = Inr (all_entities_set e)
     \<and> WeaknessMatcher (weakness_file fs) = Inr (weakness_matcher e)
     \<and> entities_by_category e = load_entities (entity_file fs)"
  by (auto simp: DecisionEngine_def Let_def split: sum.splits)

lemma DecisionEngine_built:
  "build_entity_set (load_entities (entity_file fs)) = Inr names \<Longrightarrow>
   WeaknessMatcher (weakness_file fs) = Inr ws \<Longrightarrow>
   \<exists>e. DecisionEngine fs now = Inr e \<and> entities_by_category e = load_entities (entity_file fs)
        \<and> all_entities_set e = names \<and> weakness_matcher e = ws"
  by (simp add: DecisionEngine_def Let_def)

lemma DecisionEngine_matcher_raises:
  "build_entity_set (load_entities (entity_file fs)) = Inr names \<Longrightarrow>
   WeaknessMatcher (weakness_file fs) = Inl err \<Longrightarrow> DecisionEngine fs now = Inl err"
  by (simp add: DecisionEngine_def Let_def)

text \<open>
  Documents that parse and yet make the constructors raise: a \<open>weaknesses\<close> key
  holding \<open>null\<close>, and an entity category holding a number.
\<close>

lemma construction_raises_on_ill_typed_documents:
  "WeaknessMatcher (Parsed (WeaknessObject (Some Unsized))) = Inl TypeError"
  "build_entity_set (EntityObject [(ascii ''diseases'', NotIterable)]) = Inl TypeError"
  "build_entity_set EntityOther = Inl AttributeError"
  "DecisionEngine (no_files\<lparr> weakness_file := Parsed (WeaknessObject (Some Unsized)) \<rparr>) 0
     = Inl TypeError"
  "DecisionEngine
     (no_files\<lparr> entity_file := Parsed (EntityObject [(ascii ''diseases'', NotIterable)]) \<rparr>) 0
     = Inl TypeError"
  by (simp_all add: WeaknessMatcher_def load_weaknesses_def build_entity_set_def
      iterate_names_def DecisionEngine_def load_entities_def empty_entities_def no_files_def)

lemma example_files:
  "weakness_file no_files = Missing" "entity_file no_files = Missing"
  "weakness_file malformed_files = Malformed" "entity_file malformed_files = Malformed"
  "entity_file weakness_only = Missing" "entity_file weakness_null = Malformed"
  "WeaknessMatcher (weakness_file weakness_only) = Inr [W1]"
  "WeaknessMatcher (weakness_file weakness_null) = Inl TypeError"
  by (simp_all add: no_files_def malformed_files_def weakness_only_def weakness_null_def
      WeaknessMatcher_def load_weaknesses_def)

text \<open>
  C8, as stated, fails: with both data files missing, and with both unparseable, the
  constructor returns an engine whose weakness table and entity set are empty, and
  \<open>WeaknessMatcher\<close> returns the empty table for a missing and for a malformed file.
\<close>

theorem construction_missing_files_counterexample:
  "entity_file no_files = Missing \<and> weakness_file no_files = Missing
   \<and> \<not> isl (DecisionEngine no_files 0)
   \<and> weakness_matcher (projr (DecisionEngine no_files 0)) = []
   \<and> all_entities_set (projr (DecisionEngine no_files 0)) = []
   \<and> entity_file malformed_files = Malformed \<and> weakness_file malformed_files = Malformed
   \<and> \<not> isl (DecisionEngine malformed_files 0)
   \<and> weakness_matcher (projr (DecisionEngine malformed_files 0)) = []
   \<and> all_entities_set (projr (DecisionEngine malformed_files 0)) = []
   \<and> WeaknessMatcher Missing = Inr [] \<and> WeaknessMatcher Malformed = Inr []"
  by (simp add: DecisionEngine_def no_files_def malformed_files_def load_entities_def
      empty_entities_def build_entity_set_def iterate_names_def WeaknessMatcher_def
      load_weaknesses_def)

text \<open>
  C8, amended.  If the weakness table file is missing or cannot be read or parsed, the
  WeaknessMatcher is constructed with the empty table.  If the entity-name file is
  missing or cannot be read or parsed, the DecisionEngine loads the four categories
  \<open>diseases\<close>, \<open>examinations\<close>, \<open>surgeries\<close> and \<open>vaccines\<close>, each empty, and builds
  the empty entity set from them; its construction then finishes exactly when the
  construction of its WeaknessMatcher does, with the table that matcher loaded, and
  raises the matcher's exception otherwise.  With both files missing or unparseable
  the engine is constructed, with the empty weakness table and the empty entity set.
  Every engine that is constructed holds the table its WeaknessMatcher loaded and the
  entity set built from the document it loaded.  (Files that parse can still make the
  construction raise: see \<open>construction_raises_on_ill_typed_documents\<close>.)
\<close>

theorem construction_degrades_to_empty:
  "(weakness_file fs \<in> {Missing, Malformed} \<longrightarrow> WeaknessMatcher (weakness_file fs) = Inr [])
   \<and> (entity_file fs \<in> {Missing, Malformed} \<longrightarrow>
        load_entities (entity_file fs) =
          EntityObject [(ascii ''diseases'', Names []), (ascii ''examinations'', Names []),
                        (ascii ''surgeries'', Names []), (ascii ''vaccines'', Names [])]
        \<and> build_entity_set (load_entities (entity_file fs)) = Inr []
        \<and> (\<forall>ws. WeaknessMatcher (weakness_file fs) = Inr ws \<longrightarrow>
              (\<exists>e. DecisionEngine fs now = Inr e
                   \<and> entities_by_category e = load_entities (entity_file fs)
                   \<and> all_entities_set e = [] \<and> weakness_matcher e = ws))
        \<and> (\<forall>err. WeaknessMatcher (weakness_file fs) = Inl err \<longrightarrow>
              DecisionEngine fs now = Inl err))
   \<and> (entity_file fs \<in> {Missing, Malformed} \<and> weakness_file fs \<in> {Missing, Malformed} \<longrightarrow>
        (\<exists>e. DecisionEngine fs now = Inr e \<and> weakness_matcher e = [] \<and> all_entities_set e = []))
   \<and> (\<forall>e. DecisionEngine fs now = Inr e \<longrightarrow>
        WeaknessMatcher (weakness_file fs) = Inr (weakness_matcher e)
        \<and> build_entity_set (load_entities (entity_file fs)) = Inr (all_entities_set e))"
proof -
  have a: "weakness_file fs \<in> {Missing, Malformed} \<longrightarrow> WeaknessMatcher (weakness_file fs) = Inr []"
    using WeaknessMatcher_unloadable by blast
  have b: "entity_file fs \<in> {Missing, Malformed} \<longrightarrow>
        load_entities (entity_file fs) =
          EntityObject [(ascii ''diseases'', Names []), (ascii ''examinations'', Names []),
                        (ascii ''surgeries'', Names []), (ascii ''vaccines'', Names [])]
        \<and> build_entity_set (load_entities (entity_file fs)) = Inr []
        \<and> (\<forall>ws. WeaknessMatcher (weakness_file fs) = Inr ws \<longrightarrow>
              (\<exists>e. DecisionEngine fs now = Inr e
                   \<and> entities_by_category e = load_entities (entity_file fs)
                   \<and> all_entities_set e = [] \<and> weakness_matcher e = ws))
        \<and> (\<forall>err. WeaknessMatcher (weakness_file fs) = Inl err \<longrightarrow>
              DecisionEngine fs now = Inl err)"
  proof
    assume m: "entity_file fs \<in> {Missing, Malformed}"
    note u = build_entity_set_unloadable [OF m]
    have built: "\<forall>ws. WeaknessMatcher (weakness_file fs) = Inr ws \<longrightarrow>
              (\<exists>e. DecisionEngine fs now = Inr e
                   \<and> entities_by_category e = load_entities (entity_file fs)
                   \<and> all_entities_set e = [] \<and> weakness_matcher e = ws)"
      using DecisionEngine_built [OF u [THEN conjunct2]] by blast
    have raises: "\<forall>err. WeaknessMatcher (weakness_file fs) = Inl err \<longrightarrow>
              DecisionEngine fs now = Inl err"
      using DecisionEngine_matcher_raises [OF u [THEN conjunct2]] by blast
    show "load_entities (entity_file fs) =
          EntityObject [(ascii ''diseases'', Names []), (ascii ''examinations'', Names []),
                        (ascii ''surgeries'', Names []), (ascii ''vaccines'', Names [])]
        \<and> build_entity_set (load_entities (entity_file fs)) = Inr []
        \<and> (\<forall>ws. WeaknessMatcher (weakness_file fs) = Inr ws \<longrightarrow>
              (\<exists>e. DecisionEngine fs now = Inr e
                   \<and> entities_by_category e = load_entities (entity_file fs)
                   \<and> all_entities_set e = [] \<and> weakness_matcher e = ws))
        \<and> (\<forall>err. WeaknessMatcher (weakness_file fs) = Inl err \<longrightarrow>
              DecisionEngine fs now = Inl err)"
      using u built raises by blast
  qed
  have c: "entity_file fs \<in> {Missing, Malformed} \<and> weakness_file fs \<in> {Missing, Malformed} \<longrightarrow>
        (\<exists>e. DecisionEngine fs now = Inr e \<and> weakness_matcher e = [] \<and> all_entities_set e = [])"
  proof
    assume m: "entity_file fs \<in> {Missing, Malformed} \<and> weakness_file fs \<in> {Missing, Malformed}"
    have w: "WeaknessMatcher (weakness_file fs) = Inr []"
      using m WeaknessMatcher_unloadable by blast
    have "build_entity_set (load_entities (entity_file fs)) = Inr []"
      using m build_entity_set_unloadable by blast
    from DecisionEngine_built [OF this w]
    show "\<exists>e. DecisionEngine fs now = Inr e \<and> weakness_matcher e = [] \<and> all_entities_set e = []"
      by blast
  qed
  have d: "\<forall>e. DecisionEngine fs now = Inr e \<longrightarrow>
        WeaknessMatcher (weakness_file fs) = Inr (weakness_matcher e)
        \<and> build_entity_set (load_entities (entity_file fs)) = Inr (all_entities_set e)"
    using DecisionEngine_Inr by blast
  show ?thesis using a b c d by blast
qed

theorem construction_degrades_witness:
  "weakness_file no_files = Missing \<and> entity_file no_files = Missing
   \<and> WeaknessMatcher (weakness_file no_files) = Inr []
   \<and> build_entity_set (load_entities (entity_file no_files)) = Inr []
   \<and> \<not> isl (DecisionEngine no_files 0)
   \<and> weakness_matcher (projr (DecisionEngine no_files 0)) = []
   \<and> all_entities_set (projr (DecisionEngine no_files 0)) = []
   \<and> weakness_file malformed_files = Malformed \<and> entity_file malformed_files = Malformed
   \<and> \<not> isl (DecisionEngine malformed_files 0)
   \<and> weakness_matcher (projr (DecisionEngine malformed_files 0)) = []
   \<and> all_entities_set (projr (DecisionEngine malformed_files 0)) = []
   \<and> entity_file weakness_only = Missing
   \<and> WeaknessMatcher (weakness_file weakness_only) = Inr [W1]
   \<and> \<not> isl (DecisionEngine weakness_only 0)
   \<and> weakness_matcher (projr (DecisionEngine weakness_only 0)) = [W1]
   \<and> all_entities_set (projr (DecisionEngine weakness_only 0)) = []
   \<and> entity_file weakness_null = Malformed
   \<and> WeaknessMatcher (weakness_file weakness_null) = Inl TypeError
   \<and> DecisionEngine weakness_null 0 = Inl TypeError"
proof -
  note f = example_files
  have m: "weakness_file no_files \<in> {Missing, Malformed}" "entity_file no_files \<in> {Missing, Malformed}"
    "weakness_file malformed_files \<in> {Missing, Malformed}"
    "entity_file malformed_files \<in> {Missing, Malformed}"
    "entity_file weakness_only \<in> {Missing, Malformed}"
    "entity_file weakness_null \<in> {Missing, Malformed}"
    using f by simp_all
  note t1 = construction_degrades_to_empty [of no_files 0]
  have w: "WeaknessMatcher (weakness_file no_files) = Inr []"
    using t1 m by blast
  have b: "build_entity_set (load_entities (entity_file no_files)) = Inr []"
    using t1 m by blast
  have "\<exists>e. DecisionEngine no_files 0 = Inr e \<and> weakness_matcher e = [] \<and> all_entities_set e = []"
    using t1 m by blast
  then obtain e1 where e1: "DecisionEngine no_files 0 = Inr e1" "weakness_matcher e1 = []"
      "all_entities_set e1 = []"
    by blast
  note t2 = construction_degrades_to_empty [of malformed_files 0]
  have "\<exists>e. DecisionEngine malformed_files 0 = Inr e \<and> weakness_matcher e = []
            \<and> all_entities_set e = []"
    using t2 m by blast
  then obtain e2 where e2: "DecisionEngine malformed_files 0 = Inr e2" "weakness_matcher e2 = []"
      "all_entities_set e2 = []"
    by blast
  note t3 = construction_degrades_to_empty [of weakness_only 0, THEN conjunct2, THEN conjunct1]
  have "\<exists>e. DecisionEngine weakness_only 0 = Inr e \<and> all_entities_set e = []
            \<and> weakness_matcher e = [W1]"
    using t3 m(5) f(7) by blast
  then obtain e3 where e3: "DecisionEngine weakness_only 0 = Inr e3" "weakness_matcher e3 = [W1]"
      "all_entities_set e3 = []"
    by blast
  note t4 = construction_degrades_to_empty [of weakness_null 0, THEN conjunct2, THEN conjunct1]
  have e4: "DecisionEngine weakness_null 0 = Inl TypeError"
    using t4 m(6) f(8) by blast
  show ?thesis using f w b e1 e2 e3 e4 by simp
qed

lemma check_no_files:
  "check_for_updates no_files 1 engine1 = Inr (False, engine1\<lparr> last_reload_check := 1 \<rparr>)"
  by (simp add: check_for_updates_def reload_entities_def reload_weaknesses_def get_mtime_def
      no_files_def engine1_def)

lemma grd_eval:
  "get_routing_decision settings1 no_files 1 engine1 q None 0.70 True =
     Inr (route settings1 (engine1\<lparr> last_reload_check := 1 \<rparr>) q None 0.70,
          engine1\<lparr> last_reload_check := 1 \<rparr>)"
  by (simp add: get_routing_decision_def check_no_files settings1_def)

lemma engine1_fields:
  "weakness_matcher (engine1\<lparr> last_reload_check := 1 \<rparr>) = [W1]"
  "WEAKNESS_TOP_K settings1 = 2" "WEAKNESS_MIN_FREQUENCY settings1 = 0.15"
  by (simp_all add: engine1_def settings1_def)

lemma rag_same_engine:
  "should_use_rag (e\<lparr> last_reload_check := t \<rparr>) q mc = should_use_rag e q mc"
  by (simp add: should_use_rag_def Let_def split: option.split)

lemma match_W1_question1:
  "match_weaknesses [W1] question1 None 2 0.15 = [make_match W1 0.40]"
proof -
  have "\<not> frequency W1 < 0.15" by (simp add: W1_def)
  then show ?thesis
    by (simp add: match_weaknesses_def slice_to_def score_W1 sort_reverse_def)
qed

lemma match_W1_other:
  "\<not> str_in [31958, 23615, 30149] q \<Longrightarrow> match_weaknesses [W1] q None 2 0.15 = []"
proof -
  assume "\<not> str_in [31958, 23615, 30149] q"
  then have "calculate_match_score q W1 None = 0"
    by (simp add: calculate_match_score_def W1_def entity_part_def keyword_part_def count_in_def)
  then show ?thesis
    by (simp add: match_weaknesses_def slice_to_def sort_reverse_def)
qed

lemma rag_eval_vaccine:
  "should_use_rag engine1 [30123, 33495] 0.70 =
     (True, ascii ''Category match: '' @ ascii ''vaccines'', 0.65)"
  by (simp add: should_use_rag_def engine1_def apostrophe_def OOD_KEYWORDS_def CATEGORY_KEYWORDS_def
        category_hit_def ascii_def)

lemma rag_eval_ood:
  "should_use_rag engine1 [34880, 31649, 30244] 0.70 =
     (False, ascii ''Known OOD topic: '' @ [39] @ [34880, 31649, 30244] @ [39], 0.90)"
  by (simp add: should_use_rag_def engine1_def apostrophe_def OOD_KEYWORDS_def ascii_def)

theorem get_routing_decision_witness:
  "routing_tier (fst (projr (get_routing_decision settings1 no_files 1 engine1 question1 None 0.70 True)))
     = ascii ''weakness''
   \<and> rag_confidence (fst (projr (get_routing_decision settings1 no_files 1 engine1 question1 None 0.70 True)))
     = 0.85
   \<and> routing_tier (fst (projr (get_routing_decision settings1 no_files 1 engine1 [30123, 33495] None 0.70 True)))
     = ascii ''rag''
   \<and> routing_tier (fst (projr (get_routing_decision settings1 no_files 1 engine1 [34880, 31649, 30244] None 0.70 True)))
     = ascii ''baseline''"
proof -
  let ?e = "engine1\<lparr> last_reload_check := 1 \<rparr>"
  let ?d = "\<lambda>q. route settings1 ?e q None 0.70"
  note tiers = get_routing_decision_tiers [THEN conjunct2, rule_format, OF grd_eval]
  have wp: "\<And>q. weakness_patterns (?d q) = match_weaknesses [W1] q None 2 0.15"
    using tiers [THEN conjunct2, THEN conjunct1] by (simp add: engine1_fields)
  have weak: "\<And>q. weakness_patterns (?d q) \<noteq> [] \<Longrightarrow>
                rag_confidence (?d q) = 0.85 \<and> routing_tier (?d q) = ascii ''weakness''"
    using tiers [THEN conjunct2, THEN conjunct2, THEN conjunct2, THEN conjunct1] by blast
  have none: "\<And>q. weakness_patterns (?d q) = [] \<Longrightarrow>
                (use_rag (?d q), rag_reason (?d q), rag_confidence (?d q)) = should_use_rag engine1 q 0.70 \<and>
                routing_tier (?d q) = (if use_rag (?d q) then ascii ''rag'' else ascii ''baseline'')"
    using tiers [THEN conjunct2, THEN conjunct2, THEN conjunct2, THEN conjunct2]
    by (simp only: rag_same_engine)
  have "weakness_patterns (?d question1) \<noteq> []"
    using wp [of question1] match_W1_question1 by simp
  then have r1: "routing_tier (?d question1) = ascii ''weakness'' \<and> rag_confidence (?d question1) = 0.85"
    using weak by blast
  have e2: "weakness_patterns (?d [30123, 33495]) = []"
    using wp [of "[30123, 33495]"] match_W1_other [of "[30123, 33495]"] by simp
  have "use_rag (?d [30123, 33495])"
    using none [OF e2] rag_eval_vaccine by simp
  then have r2: "routing_tier (?d [30123, 33495]) = ascii ''rag''"
    using none [OF e2] by simp
  have e3: "weakness_patterns (?d [34880, 31649, 30244]) = []"
    using wp [of "[34880, 31649, 30244]"] match_W1_other [of "[34880, 31649, 30244]"] by simp
  have "\<not> use_rag (?d [34880, 31649, 30244])"
    using none [OF e3] rag_eval_ood by simp
  then have r3: "routing_tier (?d [34880, 31649, 30244]) = ascii ''baseline''"
    using none [OF e3] by simp
  show ?thesis
    unfolding grd_eval sum.sel fst_conv using r1 r2 r3 by blast
qed

section \<open>Pattern storage: properties\<close>

lemma embed_batch_length:
  "embed_batch st api ts c = (Inr vs, c') \<Longrightarrow> length vs = length ts"
proof (induction ts arbitrary: c vs c')
  case Nil
  then show ?case by simp
next
  case (Cons t ts)
  then show ?case
    by (auto split: prod.splits sum.splits)
qed

lemma descriptions_of_length:
  "descriptions_of h ps = Inr ds \<Longrightarrow> length ds = length ps"
  by (induction ps arbitrary: ds) (auto split: sum.splits)

lemma set_id_fields [simp]:
  "patterns (set_id p n s) = patterns s" "index (set_id p n s) = index s"
  "cache (set_id p n s) = cache s"
  by (simp_all add: set_id_def)

lemma append_patterns_fields:
  "patterns (append_patterns i ps s) = patterns s @ ps"
  "index (append_patterns i ps s) = index s"
  by (induction i ps s rule: append_patterns.induct) (simp_all add: Let_def)

lemma np_array_Inr: "np_array rows = Inr x \<Longrightarrow> x = rows"
  by (auto simp: np_array_def split: list.splits if_splits)

lemma faiss_add_ntotal:
  "faiss_add ix x = Inr ix' \<Longrightarrow> ntotal ix' = ntotal ix + length x"
  by (auto simp: faiss_add_def ntotal_def split: if_splits)

lemma row_count_simps [simp]:
  "row_count (s\<lparr> index := Some ix \<rparr>) = ntotal ix"
  "row_count (s\<lparr> cache := c \<rparr>) = row_count s"
  "row_count (s\<lparr> patterns := ps \<rparr>) = row_count s"
  "row_count (set_id p n s) = row_count s"
  by (simp_all add: row_count_def)

lemma add_pattern_effect:
  fixes s :: storage and st :: settings and api :: provider and fails :: bool and p :: nat
  defines "s' \<equiv> add_pattern st api fails p s"
  shows "(patterns s' = patterns s \<and> row_count s' = row_count s)
       \<or> (patterns s' = patterns s @ [p] \<and> row_count s' = row_count s + 1)"
  unfolding s'_def
  by (auto simp: add_pattern_def Let_def save_def row_count_def ntotal_def IndexFlatL2_def
      faiss_add_def split: sum.splits prod.splits option.splits if_splits)

lemma add_patterns_batch_effect:
  fixes s :: storage and st :: settings and api :: provider and fails :: bool and ps :: "nat list"
  defines "s' \<equiv> add_patterns_batch st api fails ps s"
  shows "(patterns s' = patterns s \<and> row_count s' = row_count s)
       \<or> (patterns s' = patterns s @ ps \<and> row_count s' = row_count s + length ps)"
proof (cases "ps = []")
  case True
  then show ?thesis by (simp add: s'_def add_patterns_batch_def)
next
  case nonempty: False
  show ?thesis
  proof (cases "descriptions_of (heap s) ps")
    case (Inl e)
    then show ?thesis using nonempty by (simp add: s'_def add_patterns_batch_def)
  next
    case (Inr ds)
    obtain r c1 where eb: "embed_batch st api ds (cache s) = (r, c1)"
      by (cases "embed_batch st api ds (cache s)")
    show ?thesis
    proof (cases r)
      case (Inl e)
      then show ?thesis
        using nonempty Inr eb by (simp add: s'_def add_patterns_batch_def)
    next
      case emb: (Inr embeddings)
      have len: "length embeddings = length ps"
        using embed_batch_length [of st api ds "cache s" embeddings c1] eb emb
          descriptions_of_length [OF Inr] by simp
      let ?ixr = "(case index s of
                     Some ix0 \<Rightarrow> Inr ix0
                   | None \<Rightarrow>
                       (case py_index embeddings 0 of
                          Inl e \<Rightarrow> Inl e
                        | Inr first \<Rightarrow> Inr (IndexFlatL2 (int (length first)))))"
      show ?thesis
      proof (cases ?ixr)
        case (Inl e)
        then show ?thesis
          using nonempty Inr eb emb by (simp add: s'_def add_patterns_batch_def)
      next
        case ixr: (Inr ix)
        have rows: "ntotal ix = row_count s"
          using ixr
          by (auto simp: row_count_def ntotal_def IndexFlatL2_def split: option.splits sum.splits)
        let ?s1 = "s\<lparr> cache := c1, index := Some ix \<rparr>"
        have s1: "patterns ?s1 = patterns s" "row_count ?s1 = row_count s"
          using rows by (simp_all add: row_count_def)
        show ?thesis
        proof (cases "np_array embeddings")
          case (Inl e)
          then show ?thesis
            using nonempty Inr eb emb ixr s1
            by (simp add: s'_def add_patterns_batch_def Let_def)
        next
          case np: (Inr x)
          have x: "x = embeddings" using np by (rule np_array_Inr)
          show ?thesis
          proof (cases "faiss_add ix x")
            case (Inl e)
            then show ?thesis
              using nonempty Inr eb emb ixr s1 np
              by (simp add: s'_def add_patterns_batch_def Let_def)
          next
            case added: (Inr ix')
            have n': "ntotal ix' = row_count s + length ps"
              using faiss_add_ntotal [OF added] rows x len by simp
            have "s' = save fails (append_patterns 0 ps (?s1\<lparr> index := Some ix' \<rparr>))"
              using nonempty Inr eb emb ixr np added
              by (simp add: s'_def add_patterns_batch_def Let_def)
            then have "patterns s' = patterns s @ ps \<and> row_count s' = row_count s + length ps"
              using n' by (simp add: save_def append_patterns_fields row_count_def)
            then show ?thesis by blast
          qed
        qed
      qed
    qed
  qed
qed

lemma PatternStorage_consistent:
  "row_count (PatternStorage pf ixf c0) = length (patterns (PatternStorage pf ixf c0))
     \<longleftrightarrow> (\<forall>loaded ix. pf = Parsed loaded \<and> ixf = Parsed ix \<longrightarrow> ntotal ix = length loaded)"
  by (cases pf; cases ixf) (auto simp: PatternStorage_def row_count_def)

text \<open>
  C6, amended.  Every call of \<open>add_pattern\<close> and of \<open>add_patterns_batch\<close> leaves
  the difference between the row count of the index (0 while there is no index) and the
  length of the pattern list as it was, for every provider (raising or not, on any
  text), every pattern argument and every outcome of the save step: a call either
  leaves both numbers unchanged or adds the same number to both.  So when the two
  numbers are equal before a call they are equal after it.  The constructor makes them
  equal when a file is absent or fails to load, and otherwise exactly when the two
  files it loads agree in length.
\<close>

theorem add_keeps_row_count:
  "(row_count s = length (patterns s) \<longrightarrow>
      row_count (add_pattern st api fails p s) = length (patterns (add_pattern st api fails p s))
      \<and> row_count (add_patterns_batch st api fails ps s)
           = length (patterns (add_patterns_batch st api fails ps s)))
   \<and> (row_count (PatternStorage pf ixf c0) = length (patterns (PatternStorage pf ixf c0))
        \<longleftrightarrow> (\<forall>loaded ix. pf = Parsed loaded \<and> ixf = Parsed ix \<longrightarrow> ntotal ix = length loaded))
   \<and> int (row_count (add_pattern st api fails p s))
        - int (length (patterns (add_pattern st api fails p s)))
       = int (row_count s) - int (length (patterns s))
   \<and> int (row_count (add_patterns_batch st api fails ps s))
        - int (length (patterns (add_patterns_batch st api fails ps s)))
       = int (row_count s) - int (length (patterns s))"
proof -
  have one: "int (row_count (add_pattern st api fails p s))
        - int (length (patterns (add_pattern st api fails p s)))
       = int (row_count s) - int (length (patterns s))"
    using add_pattern_effect [of st api fails p s] by auto
  have batch: "int (row_count (add_patterns_batch st api fails ps s))
        - int (length (patterns (add_patterns_batch st api fails ps s)))
       = int (row_count s) - int (length (patterns s))"
    using add_patterns_batch_effect [of st api fails ps s] by auto
  have "row_count s = length (patterns s) \<longrightarrow>
      row_count (add_pattern st api fails p s) = length (patterns (add_pattern st api fails p s))
      \<and> row_count (add_patterns_batch st api fails ps s)
           = length (patterns (add_patterns_batch st api fails ps s))"
    using one batch by auto
  then show ?thesis using PatternStorage_consistent [of pf ixf c0] one batch by blast
qed

lemma copy_with_score_effect:
  assumes "copy_with_score stored r s = (a, s1)"
  shows "a = length (heap s)"
    and "heap s1 = heap s @ [(heap s ! stored)(''relevance_score'' \<mapsto> PFloat r)]"
    and "patterns s1 = patterns s" and "index s1 = index s" and "cache s1 = cache s"
  using assms by (auto simp: copy_with_score_def Let_def)

lemma prefix_nth: "prefix xs ys \<Longrightarrow> i < length xs \<Longrightarrow> ys ! i = xs ! i"
  by (auto simp: prefix_def nth_append)


lemma scan_frame:
  "scan_candidates k th c ml cands rs s = (r, s') \<Longrightarrow>
     patterns s' = patterns s \<and> index s' = index s \<and> cache s' = cache s
     \<and> prefix (heap s) (heap s')"
proof (induction cands arbitrary: rs s)
  case Nil
  then show ?case by simp
next
  case (Cons cd rest)
  obtain idx distance where cd: "cd = (idx, distance)" by (cases cd)
  show ?case
  proof (cases "idx < int (length (patterns s))")
    case False
    then show ?thesis using Cons cd by simp
  next
    case inrange: True
    show ?thesis
    proof (cases "py_index (patterns s) idx")
      case (Inl e)
      then show ?thesis using Cons.prems cd inrange by simp
    next
      case (Inr stored)
      obtain a s1 where cp: "copy_with_score stored (1 / (1 + distance)) s = (a, s1)"
        by (cases "copy_with_score stored (1 / (1 + distance)) s")
      note eff = copy_with_score_effect [OF cp]
      have pre: "prefix (heap s) (heap s1)" using eff(2) by simp
      have keep: "\<And>rs1. scan_candidates k th c ml rest rs1 s1 = (r, s') \<Longrightarrow>
                    patterns s' = patterns s \<and> index s' = index s \<and> cache s' = cache s
                    \<and> prefix (heap s) (heap s')"
      proof -
        fix rs1 assume "scan_candidates k th c ml rest rs1 s1 = (r, s')"
        from Cons.IH [OF this]
        have ih: "patterns s' = patterns s1" "index s' = index s1" "cache s' = cache s1"
          "prefix (heap s1) (heap s')" by simp_all
        have "prefix (heap s) (heap s')"
          using pre ih(4) by (rule prefix_order.trans)
        then show "patterns s' = patterns s \<and> index s' = index s \<and> cache s' = cache s
                    \<and> prefix (heap s) (heap s')"
          using eff(3,4,5) ih(1,2,3) by simp
      qed
      show ?thesis
      proof (cases "passes_filters th c ml (heap s1 ! a) (1 / (1 + distance))")
        case (Inl e)
        then show ?thesis using Cons.prems cd inrange Inr cp eff pre by simp
      next
        case pf: (Inr b)
        show ?thesis
        proof (cases b)
          case False
          then show ?thesis using Cons.prems cd inrange Inr cp pf keep by simp
        next
          case True
          show ?thesis
          proof (cases "int (length (rs @ [a])) \<ge> k")
            case stop: True
            then show ?thesis using Cons.prems cd inrange Inr cp pf True eff pre by simp
          next
            case False
            then show ?thesis using Cons.prems cd inrange Inr cp pf True keep by simp
          qed
        qed
      qed
    qed
  qed
qed





lemma faiss_search_length:
  assumes "faiss_search ix q k = Inr cands"
  shows "length cands = nat k"
  using assms by (auto simp: faiss_search_def Let_def split: if_splits)

lemma scan_fresh:
  "scan_candidates k th c ml cands rs s = (Inr rs', s') \<Longrightarrow>
     \<forall>a\<in>set rs'. a \<in> set rs \<or> length (heap s) \<le> a"
proof (induction cands arbitrary: rs s)
  case Nil
  then show ?case by simp
next
  case (Cons cd rest)
  obtain idx distance where cd: "cd = (idx, distance)" by (cases cd)
  show ?case
  proof (cases "idx < int (length (patterns s))")
    case False
    then show ?thesis using Cons cd by simp
  next
    case inrange: True
    show ?thesis
    proof (cases "py_index (patterns s) idx")
      case (Inl e)
      then show ?thesis using Cons.prems cd inrange by simp
    next
      case (Inr stored)
      obtain a s1 where cp: "copy_with_score stored (1 / (1 + distance)) s = (a, s1)"
        by (cases "copy_with_score stored (1 / (1 + distance)) s")
      note eff = copy_with_score_effect [OF cp]
      have grow: "length (heap s) \<le> length (heap s1)" using eff(2) by simp
      have rest_case: "\<And>rs1. scan_candidates k th c ml rest rs1 s1 = (Inr rs', s') \<Longrightarrow>
          set rs1 \<subseteq> insert a (set rs) \<Longrightarrow>
          \<forall>b\<in>set rs'. b \<in> set rs \<or> length (heap s) \<le> b"
      proof -
        fix rs1 assume run: "scan_candidates k th c ml rest rs1 s1 = (Inr rs', s')"
          and sub: "set rs1 \<subseteq> insert a (set rs)"
        show "\<forall>b\<in>set rs'. b \<in> set rs \<or> length (heap s) \<le> b"
          using Cons.IH [OF run] sub grow eff(1) by fastforce
      qed
      show ?thesis
      proof (cases "passes_filters th c ml (heap s1 ! a) (1 / (1 + distance))")
        case (Inl e)
        then show ?thesis using Cons.prems cd inrange Inr cp by simp
      next
        case pf: (Inr b)
        show ?thesis
        proof (cases b)
          case False
          then have "scan_candidates k th c ml rest rs s1 = (Inr rs', s')"
            using Cons.prems cd inrange Inr cp pf by simp
          then show ?thesis by (rule rest_case) auto
        next
          case True
          show ?thesis
          proof (cases "int (length (rs @ [a])) \<ge> k")
            case stop: True
            then have "rs' = rs @ [a]"
              using Cons.prems cd inrange Inr cp pf True by simp
            then show ?thesis using eff(1) by auto
          next
            case False
            then have "scan_candidates k th c ml rest (rs @ [a]) s1 = (Inr rs', s')"
              using Cons.prems cd inrange Inr cp pf True by simp
            then show ?thesis by (rule rest_case) auto
          qed
        qed
      qed
    qed
  qed
qed

lemma retrieve_relevant_cases:
  assumes "retrieve_relevant st api question k category' min_severity threshold0 s = (results, s')"
  shows "(results = [] \<and> patterns s' = patterns s \<and> index s' = index s
            \<and> prefix (heap s) (heap s'))
       \<or> (\<exists>ix qe c1 cands.
            index s = Some ix \<and> patterns s \<noteq> []
            \<and> embed st api question (cache s) = (Inr qe, c1)
            \<and> faiss_search ix qe (min (k * 3) (int (length (patterns s)))) = Inr cands
            \<and> scan_candidates k
                 (case threshold0 of None \<Rightarrow> RAG_RELEVANCE_THRESHOLD st | Some t \<Rightarrow> t)
                 category' (severity_level min_severity) cands [] (s\<lparr> cache := c1 \<rparr>)
                = (Inr results, s'))"
proof (cases "index s")
  case None
  then show ?thesis using assms by (simp add: retrieve_relevant_def)
next
  case (Some ix)
  show ?thesis
  proof (cases "patterns s = []")
    case True
    then show ?thesis using assms Some by (simp add: retrieve_relevant_def)
  next
    case ne: False
    obtain r c1 where em: "embed st api question (cache s) = (r, c1)"
      by (cases "embed st api question (cache s)")
    show ?thesis
    proof (cases r)
      case (Inl e)
      then show ?thesis using assms Some ne em by (auto simp: retrieve_relevant_def)
    next
      case qe: (Inr qe)
      show ?thesis
      proof (cases "faiss_search ix qe (min (k * 3) (int (length (patterns s))))")
        case (Inl e)
        then show ?thesis
          using assms Some ne em qe by (auto simp: retrieve_relevant_def Let_def)
      next
        case fs: (Inr cands)
        let ?th = "case threshold0 of None \<Rightarrow> RAG_RELEVANCE_THRESHOLD st | Some t \<Rightarrow> t"
        obtain r2 s2 where sc: "scan_candidates k ?th category' (severity_level min_severity)
                                   cands [] (s\<lparr> cache := c1 \<rparr>) = (r2, s2)"
          by (cases "scan_candidates k ?th category' (severity_level min_severity)
                                   cands [] (s\<lparr> cache := c1 \<rparr>)")
        have fr: "patterns s2 = patterns s \<and> index s2 = index s \<and> prefix (heap s) (heap s2)"
          using scan_frame [OF sc] by simp
        show ?thesis
        proof (cases r2)
          case (Inl e)
          then have "results = [] \<and> s' = s2"
            using assms Some ne em qe fs sc by (auto simp: retrieve_relevant_def Let_def)
          then show ?thesis using fr by simp
        next
          case (Inr rs)
          then have "results = rs \<and> s' = s2"
            using assms Some ne em qe fs sc by (auto simp: retrieve_relevant_def Let_def)
          then show ?thesis using Some ne em qe fs sc Inr by blast
        qed
      qed
    qed
  qed
qed

text \<open>
  C10.  \<open>retrieve_relevant\<close> never changes the stored pattern list: after every call,
  whatever its arguments and whether it returns patterns or the empty list,
  \<open>self.patterns\<close> is the same list of references (so it has the same length), the
  index is the same, every object that existed before the call is unchanged (the store
  of before is a prefix of the store of after), so every stored record is the same dict
  as before and has a \<open>relevance_score\<close> item exactly if it had one before.  Every
  returned pattern is an object created during the call.
\<close>

theorem retrieve_relevant_frame:
  assumes "retrieve_relevant st api question k category' min_severity threshold0 s = (results, s')"
  shows "patterns s' = patterns s \<and> length (patterns s') = length (patterns s)
       \<and> index s' = index s
       \<and> prefix (heap s) (heap s')
       \<and> (\<forall>x\<in>set (patterns s). x < length (heap s) \<longrightarrow>
             heap s' ! x = heap s ! x
             \<and> (heap s' ! x) ''relevance_score'' = (heap s ! x) ''relevance_score'')
       \<and> (\<forall>a\<in>set results. length (heap s) \<le> a)"
proof -
  from retrieve_relevant_cases [OF assms]
  have fr: "patterns s' = patterns s \<and> index s' = index s \<and> prefix (heap s) (heap s')
            \<and> (\<forall>a\<in>set results. length (heap s) \<le> a)"
  proof
    assume "results = [] \<and> patterns s' = patterns s \<and> index s' = index s
            \<and> prefix (heap s) (heap s')"
    then show ?thesis by simp
  next
    assume "\<exists>ix qe c1 cands.
            index s = Some ix \<and> patterns s \<noteq> []
            \<and> embed st api question (cache s) = (Inr qe, c1)
            \<and> faiss_search ix qe (min (k * 3) (int (length (patterns s)))) = Inr cands
            \<and> scan_candidates k
                 (case threshold0 of None \<Rightarrow> RAG_RELEVANCE_THRESHOLD st | Some t \<Rightarrow> t)
                 category' (severity_level min_severity) cands [] (s\<lparr> cache := c1 \<rparr>)
                = (Inr results, s')"
    then obtain c1 cands where
      sc: "scan_candidates k
                 (case threshold0 of None \<Rightarrow> RAG_RELEVANCE_THRESHOLD st | Some t \<Rightarrow> t)
                 category' (severity_level min_severity) cands [] (s\<lparr> cache := c1 \<rparr>)
                = (Inr results, s')" by blast
    show ?thesis
      using scan_frame [OF sc] scan_fresh [OF sc] by simp
  qed
  have "\<forall>x\<in>set (patterns s). x < length (heap s) \<longrightarrow>
             heap s' ! x = heap s ! x
             \<and> (heap s' ! x) ''relevance_score'' = (heap s ! x) ''relevance_score''"
    using fr prefix_nth by fastforce
  then show ?thesis using fr by simp
qed

text \<open>
  C9.  If the embedding call inside \<open>retrieve_relevant\<close> raises, the result is the
  empty list; the call raises when the provider fails on the (truncated) question and
  the cache does not hold it.  The result is also the empty list when the storage has no
  index or no patterns.  \<open>retrieve_relevant\<close> is a total function into lists: no
  exception leaves it.
\<close>

theorem retrieve_relevant_embedding_failure:
  "(fst (embed st api question (cache s)) = Inl e \<longrightarrow>
      fst (retrieve_relevant st api question k category' min_severity threshold0 s) = [])
   \<and> (index s = None \<or> patterns s = [] \<longrightarrow>
      fst (retrieve_relevant st api question k category' min_severity threshold0 s) = [])
   \<and> (api (truncate_text question) = Inl e
        \<and> (\<not> USE_EMBEDDING_CACHE st \<or> cache s (truncate_text question) = None) \<longrightarrow>
      fst (embed st api question (cache s)) = Inl e)"
proof -
  have a: "fst (embed st api question (cache s)) = Inl e \<longrightarrow>
      fst (retrieve_relevant st api question k category' min_severity threshold0 s) = []"
    by (cases "embed st api question (cache s)")
       (auto simp: retrieve_relevant_def Let_def split: option.splits)
  have b: "index s = None \<or> patterns s = [] \<longrightarrow>
      fst (retrieve_relevant st api question k category' min_severity threshold0 s) = []"
    by (auto simp: retrieve_relevant_def split: option.splits)
  have c: "api (truncate_text question) = Inl e
        \<and> (\<not> USE_EMBEDDING_CACHE st \<or> cache s (truncate_text question) = None) \<longrightarrow>
      fst (embed st api question (cache s)) = Inl e"
    by (auto simp: embed_def Let_def)
  show ?thesis using a b c by blast
qed










section \<open>Pattern storage and vector store: concrete runs\<close>

lemma ascii_values:
  "ascii ''q'' = [113]" "ascii ''bad'' = [98, 97, 100]" "ascii ''flu'' = [102, 108, 117]"
  "ascii ''general'' = [103, 101, 110, 101, 114, 97, 108]"
  "ascii ''vaccines'' = [118, 97, 99, 99, 105, 110, 101, 115]"
  "ascii ''surgeries'' = [115, 117, 114, 103, 101, 114, 105, 101, 115]"
  "ascii ''minor'' = [109, 105, 110, 111, 114]"
  "ascii ''major'' = [109, 97, 106, 111, 114]"
  "ascii ''critical'' = [99, 114, 105, 116, 105, 99, 97, 108]"
  "ascii ''mg'' = [109, 103]"
  by (simp_all add: ascii_def)

lemma embed_q:
  "embed settings2 provider1 (ascii ''q'') Map.empty = (Inr [1, 0], [ascii ''q'' \<mapsto> [1, 0]])"
  by (simp add: embed_def truncate_text_def settings2_def provider1_def ascii_values)

lemma store1_is_built:
  "build settings2 provider1 [(ascii ''flu'', [''name'' \<mapsto> PStr (ascii ''flu'')])]
     \<lparr> vs_cache = Map.empty, vs_index = None, metadata = [], texts = [] \<rparr>
   = (Inr (), store1\<lparr> vs_cache := [ascii ''flu'' \<mapsto> [3, 0]] \<rparr>)"
  by (simp add: build_def embed_item_def truncate_text_def settings2_def provider1_def
      ascii_values np_array_def faiss_add_def IndexFlatL2_def store1_def)

lemma search_store1:
  "faiss_search \<lparr> dim = 2, vectors = [[3, 0]] \<rparr> [1, 0] 2 = Inr [(0, 4), (- 1, FLT_MAX)]"
  by (simp add: faiss_search_def l2sqr_def FLT_MAX_def)

text \<open>
  C7 fails on the code when \<open>k\<close> exceeds the number of stored rows.  On a store with
  one row and \<open>k = 2\<close> the index pads its answer with the label \<open>-1\<close> and the
  distance \<open>FLT_MAX\<close>; the guard \<open>idx < len(self.metadata)\<close> lets \<open>-1\<close> pass and
  \<open>self.metadata[-1]\<close> is the last row, so \<open>search\<close> returns a second result that
  repeats the stored row with a distance no row has.
\<close>

theorem search_pads_with_last_row:
  "fst (search settings2 provider1 (ascii ''q'') 2 store1) =
     Inr [ [''name'' \<mapsto> PStr (ascii ''flu''), ''content'' \<mapsto> PStr (ascii ''flu''),
            ''distance'' \<mapsto> PFloat 4, ''similarity'' \<mapsto> PFloat (1 / 5)],
           [''name'' \<mapsto> PStr (ascii ''flu''), ''content'' \<mapsto> PStr (ascii ''flu''),
            ''distance'' \<mapsto> PFloat FLT_MAX, ''similarity'' \<mapsto> PFloat (1 / (1 + FLT_MAX))] ]"
  by (simp add: search_def store1_def embed_q search_store1 py_index_def)

lemma search_storage3:
  "faiss_search \<lparr> dim = 2, vectors = [[2, 0], [1, 0], [3, 0]] \<rparr> [1, 0] 3
     = Inr [(1, 0), (0, 1), (2, 4)]"
  by (simp add: faiss_search_def l2sqr_def FLT_MAX_def upt_rec)


lemma retrieve_storage3:
  "retrieve_relevant settings2 provider1 (ascii ''q'') 2 (Some (ascii ''vaccines''))
       (ascii ''minor'') (Some 0.05) storage3
   = ([4, 5],
      \<lparr> cache = [ascii ''q'' \<mapsto> [1, 0]],
        heap = [pattern_a, pattern_b, pattern_c,
                pattern_b(''relevance_score'' \<mapsto> PFloat 1),
                pattern_a(''relevance_score'' \<mapsto> PFloat (1 / 2)),
                pattern_c(''relevance_score'' \<mapsto> PFloat (1 / 5))],
        patterns = [0, 1, 2],
        index = Some \<lparr> dim = 2, vectors = [[2, 0], [1, 0], [3, 0]] \<rparr> \<rparr>)"
proof -
  have i: "index storage3 = Some \<lparr> dim = 2, vectors = [[2, 0], [1, 0], [3, 0]] \<rparr>"
    and p: "patterns storage3 = [0, 1, 2]" and c: "cache storage3 = Map.empty"
    by (simp_all add: storage3_def)
  show ?thesis
    unfolding retrieve_relevant_def
    by (simp add: i p c embed_q search_storage3)
       (simp add: storage3_def py_index_def copy_with_score_def passes_filters_def dict_get_def
          severity_order_get_def severity_level_def pattern_a_def pattern_b_def pattern_c_def
          ascii_values Let_def)
qed


lemma storage3_wf: "\<forall>x\<in>set (patterns storage3). x < length (heap storage3)"
  by (simp add: storage3_def)








theorem retrieve_relevant_frame_witness:
  "patterns (snd (retrieve_relevant settings2 provider1 (ascii ''q'') 2 (Some (ascii ''vaccines''))
          (ascii ''minor'') (Some 0.05) storage3)) = [0, 1, 2]
   \<and> heap (snd (retrieve_relevant settings2 provider1 (ascii ''q'') 2 (Some (ascii ''vaccines''))
          (ascii ''minor'') (Some 0.05) storage3)) ! 0 = pattern_a
   \<and> (heap (snd (retrieve_relevant settings2 provider1 (ascii ''q'') 2 (Some (ascii ''vaccines''))
          (ascii ''minor'') (Some 0.05) storage3)) ! 0) ''relevance_score'' = None
   \<and> fst (retrieve_relevant settings2 provider1 (ascii ''q'') 2 (Some (ascii ''vaccines''))
          (ascii ''minor'') (Some 0.05) storage3) = [4, 5]"
proof -
  let ?s' = "snd (retrieve_relevant settings2 provider1 (ascii ''q'') 2 (Some (ascii ''vaccines''))
          (ascii ''minor'') (Some 0.05) storage3)"
  let ?r = "fst (retrieve_relevant settings2 provider1 (ascii ''q'') 2 (Some (ascii ''vaccines''))
          (ascii ''minor'') (Some 0.05) storage3)"
  have run: "retrieve_relevant settings2 provider1 (ascii ''q'') 2 (Some (ascii ''vaccines''))
          (ascii ''minor'') (Some 0.05) storage3 = (?r, ?s')" by simp
  note t = retrieve_relevant_frame [OF run]
  have p: "patterns ?s' = patterns storage3" using t by (rule conjunct1)
  have "\<forall>x\<in>set (patterns storage3). x < length (heap storage3) \<longrightarrow>
             heap ?s' ! x = heap storage3 ! x
             \<and> (heap ?s' ! x) ''relevance_score'' = (heap storage3 ! x) ''relevance_score''"
    using t by blast
  moreover have "0 \<in> set (patterns storage3)" "0 < length (heap storage3)"
    by (simp_all add: storage3_def)
  ultimately have h: "heap ?s' ! 0 = heap storage3 ! 0
      \<and> (heap ?s' ! 0) ''relevance_score'' = (heap storage3 ! 0) ''relevance_score''"
    by blast
  have old: "heap storage3 ! 0 = pattern_a" "pattern_a ''relevance_score'' = None"
    "patterns storage3 = [0, 1, 2]"
    by (simp_all add: storage3_def pattern_a_def)
  have r: "?r = [4, 5]" unfolding retrieve_storage3 by simp
  show ?thesis using p h old r by simp
qed

lemma embed_bad:
  "embed settings2 provider1 (ascii ''bad'') Map.empty = (Inl ProviderError, Map.empty)"
  by (simp add: embed_def truncate_text_def settings2_def provider1_def ascii_values)

theorem retrieve_relevant_embedding_failure_witness:
  "fst (embed settings2 provider1 (ascii ''bad'') (cache storage3)) = Inl ProviderError
   \<and> fst (retrieve_relevant settings2 provider1 (ascii ''bad'') 2 None (ascii ''minor'') None storage3) = []
   \<and> index storage0 = None
   \<and> fst (retrieve_relevant settings2 provider1 (ascii ''q'') 2 None (ascii ''minor'') None storage0) = []"
proof -
  have e: "fst (embed settings2 provider1 (ascii ''bad'') (cache storage3)) = Inl ProviderError"
    by (simp add: storage3_def embed_bad)
  have n: "index storage0 = None" by (simp add: storage0_def)
  note t1 = retrieve_relevant_embedding_failure
              [of settings2 provider1 "ascii ''bad''" storage3 ProviderError 2 None "ascii ''minor''" None]
  note t2 = retrieve_relevant_embedding_failure
              [of settings2 provider1 "ascii ''q''" storage0 ProviderError 2 None "ascii ''minor''" None]
  have r1: "fst (retrieve_relevant settings2 provider1 (ascii ''bad'') 2 None (ascii ''minor'') None storage3) = []"
    using t1 e by blast
  have r2: "fst (retrieve_relevant settings2 provider1 (ascii ''q'') 2 None (ascii ''minor'') None storage0) = []"
    using t2 n by blast
  show ?thesis using e n r1 r2 by blast
qed

lemma add_pattern_storage0:
  "patterns (add_pattern settings2 provider1 True 0 storage0) = [0]"
  "patterns (add_pattern settings2 provider1 False 3 storage0) = []"
  by (simp_all add: add_pattern_def storage0_def subscript_def pattern_a_def pattern_bad_def
      embed_value_def embed_def truncate_text_def settings2_def provider1_def ascii_values
      IndexFlatL2_def faiss_add_def set_id_def save_def Let_def)

lemma add_batch_storage0:
  "patterns (add_patterns_batch settings2 provider1 True [0, 3] storage0) = [0, 3]"
  by (simp add: add_patterns_batch_def storage0_def subscript_def pattern_a_def pattern_bad_def
      embed_item_def truncate_text_def settings2_def provider1_def ascii_values
      IndexFlatL2_def faiss_add_def np_array_def py_index_def set_id_def save_def Let_def)

lemma PatternStorage_loaded:
  "PatternStorage (Parsed [pattern_a, pattern_b]) (Parsed \<lparr> dim = 2, vectors = [[2, 0]] \<rparr>) Map.empty
     = \<lparr> cache = Map.empty, heap = [pattern_a, pattern_b], patterns = [0, 1],
         index = Some \<lparr> dim = 2, vectors = [[2, 0]] \<rparr> \<rparr>"
  by (simp add: PatternStorage_def upt_rec)

lemma add_storage_loaded:
  "row_count (add_pattern settings2 provider1 False 2 storage_loaded) = 2"
  "patterns (add_pattern settings2 provider1 False 2 storage_loaded) = [0, 1, 2]"
  "row_count (add_patterns_batch settings2 provider1 False [2] storage_loaded) = 2"
  "patterns (add_patterns_batch settings2 provider1 False [2] storage_loaded) = [0, 1, 2]"
  by (simp_all add: add_pattern_def add_patterns_batch_def storage_loaded_def subscript_def
      pattern_c_def embed_value_def embed_def embed_item_def truncate_text_def settings2_def
      provider1_def ascii_def faiss_add_def np_array_def py_index_def set_id_def save_def
      row_count_def ntotal_def Let_def)

text \<open>
  C6, as stated, fails: \<open>_load\<close> takes the pattern file and the index file as they
  are, without comparing them.  On a storage constructed from a pattern file with two
  patterns and an index file with one row, a call of \<open>add_pattern\<close> or of
  \<open>add_patterns_batch\<close> that adds one pattern returns with two rows in the index and
  three patterns in the list.
\<close>

theorem add_after_mismatched_load_counterexample:
  "storage_loaded =
     (PatternStorage (Parsed [pattern_a, pattern_b])
        (Parsed \<lparr> dim = 2, vectors = [[2, 0]] \<rparr>) Map.empty)
       \<lparr> heap := [pattern_a, pattern_b, pattern_c] \<rparr>
   \<and> row_count storage_loaded = 1 \<and> length (patterns storage_loaded) = 2
   \<and> row_count (add_pattern settings2 provider1 False 2 storage_loaded) = 2
   \<and> length (patterns (add_pattern settings2 provider1 False 2 storage_loaded)) = 3
   \<and> row_count (add_patterns_batch settings2 provider1 False [2] storage_loaded) = 2
   \<and> length (patterns (add_patterns_batch settings2 provider1 False [2] storage_loaded)) = 3"
  unfolding PatternStorage_loaded add_storage_loaded
  by (simp add: storage_loaded_def row_count_def ntotal_def)

theorem add_keeps_row_count_witness:
  "row_count storage0 = length (patterns storage0)
   \<and> row_count (add_pattern settings2 provider1 True 0 storage0) = 1
   \<and> length (patterns (add_pattern settings2 provider1 True 0 storage0)) = 1
   \<and> row_count (add_pattern settings2 provider1 False 3 storage0) = 0
   \<and> length (patterns (add_pattern settings2 provider1 False 3 storage0)) = 0
   \<and> row_count (add_patterns_batch settings2 provider1 True [0, 3] storage0) = 2
   \<and> length (patterns (add_patterns_batch settings2 provider1 True [0, 3] storage0)) = 2
   \<and> row_count (PatternStorage Missing Missing Map.empty)
       = length (patterns (PatternStorage Missing Missing Map.empty))"
proof -
  have c: "row_count storage0 = length (patterns storage0)"
    by (simp add: storage0_def row_count_def)
  note t1 = add_keeps_row_count [where s = storage0 and st = settings2 and api = provider1
      and fails = True and p = 0 and ps = "[0, 3]" and pf = Missing and ixf = Missing
      and ?c0.0 = Map.empty]
  note t2 = add_keeps_row_count [where s = storage0 and st = settings2 and api = provider1
      and fails = False and p = 3 and ps = "[0, 3]" and pf = Missing and ixf = Missing
      and ?c0.0 = Map.empty]
  have a1: "row_count (add_pattern settings2 provider1 True 0 storage0)
              = length (patterns (add_pattern settings2 provider1 True 0 storage0))"
    and b1: "row_count (add_patterns_batch settings2 provider1 True [0, 3] storage0)
              = length (patterns (add_patterns_batch settings2 provider1 True [0, 3] storage0))"
    and n1: "row_count (PatternStorage Missing Missing Map.empty)
              = length (patterns (PatternStorage Missing Missing Map.empty))"
    using t1 c by simp_all
  have a2: "row_count (add_pattern settings2 provider1 False 3 storage0)
              = length (patterns (add_pattern settings2 provider1 False 3 storage0))"
    using t2 c by simp
  show ?thesis
    using c a1 a2 b1 n1 by (simp add: add_pattern_storage0 add_batch_storage0)
qed

end
